theory Spec2Isabelle
  imports Main "HOL-Library.AList" "HOL-Library.Signed_Division"
begin

section \<open>Errors\<close>

text \<open>
  The error kinds the packages compare against (\<^verbatim>\<open>params.ErrNotFound\<close> and its siblings, the
  monitor's \<^verbatim>\<open>errControllerRemoved\<close>, \<^verbatim>\<open>tomb.ErrDying\<close>). \<open>CauseSelf\<close> is the cause of an
  error that carries no cause of its own, and \<open>CauseParams\<close> the cause of an error that is
  or wraps an API error value (\<^verbatim>\<open>*jujuparams.Error\<close>).
\<close>

datatype cause =
    ErrNotFound | ErrUnauthorized | ErrBadRequest | ErrAlreadyExists | ErrAmbiguousChoice
  | ErrLeaseUnavailable | ErrAPIConnection | errControllerRemoved | ErrDying | ErrLocalUser
  | CauseParams string string
  | CauseSelf

text \<open>A Go error value: an error with a cause and a message, or an API error value with
  its message and code.\<close>

datatype error = Errgo cause string | ParamsError string string

fun Cause :: "error \<Rightarrow> cause" where
  "Cause (Errgo c m) = c"
| "Cause (ParamsError m c) = CauseParams m c"

fun Error_text :: "error \<Rightarrow> string" where
  "Error_text (Errgo c m) = m"
| "Error_text (ParamsError m c) = m"

text \<open>
  The wrappers of the error library: \<^verbatim>\<open>Mask\<close> keeps the message and keeps the cause only if
  one of the given predicates accepts it; \<^verbatim>\<open>NoteMask\<close> and \<^verbatim>\<open>Notef\<close> prefix a message;
  \<^verbatim>\<open>WithCausef\<close> sets the cause, and with an empty format keeps the message of the error it
  wraps.
\<close>

definition Mask :: "error \<Rightarrow> (cause \<Rightarrow> bool) \<Rightarrow> error" where
  "Mask e pass = Errgo (if pass (Cause e) then Cause e else CauseSelf) (Error_text e)"


definition Notef :: "error \<Rightarrow> string \<Rightarrow> error" where
  "Notef e msg = Errgo CauseSelf (msg @ '': '' @ Error_text e)"

definition WithCausef :: "error \<Rightarrow> cause \<Rightarrow> string \<Rightarrow> error" where
  "WithCausef e c msg = Errgo c (if msg = [] then Error_text e else msg @ '': '' @ Error_text e)"

definition no_pass :: "cause \<Rightarrow> bool" where
  "no_pass c = False"


definition params_ErrUnauthorized :: error where
  "params_ErrUnauthorized = Errgo ErrUnauthorized ''unauthorized''"

section \<open>Controller monitor: the delta reducer (package monitor)\<close>

text \<open>
  The all-watcher of a downstream controller delivers batches of deltas. A delta carries an
  entity and the flag \<open>Removed\<close>. The reducer of \<^verbatim>\<open>controllerMonitor.watch\<close> switches on
  the Go type of the entity; only model, unit, application and machine entities are
  handled, every other entity type falls through the switch without effect.
\<close>

record EntityId =
  Kind :: string
  ModelUUID :: string
  Id_e :: string

text \<open>
  The entity types of a delta. The first four are the types the reducer's type switch
  names; \<open>OtherInfo\<close> stands for every other type of the watcher's protocol.
\<close>

datatype EntityInfo =
    ModelInfo string string
  | UnitInfo string string
  | ApplicationInfo string string
  | MachineInfo string string
  | OtherInfo EntityId

text \<open>
  \<^verbatim>\<open>EntityId()\<close> of the watcher's protocol: the kind is fixed by the entity's type, and a
  model is identified by its own UUID.
\<close>

fun entityId :: "EntityInfo \<Rightarrow> EntityId" where
  "entityId (ModelInfo uuid lf) = \<lparr>Kind = ''model'', ModelUUID = uuid, Id_e = uuid\<rparr>"
| "entityId (UnitInfo uuid name) = \<lparr>Kind = ''unit'', ModelUUID = uuid, Id_e = name\<rparr>"
| "entityId (ApplicationInfo uuid name) = \<lparr>Kind = ''application'', ModelUUID = uuid, Id_e = name\<rparr>"
| "entityId (MachineInfo uuid mid) = \<lparr>Kind = ''machine'', ModelUUID = uuid, Id_e = mid\<rparr>"
| "entityId (OtherInfo i) = i"

record Delta =
  Removed :: bool
  Entity :: EntityInfo

record EntityPath =
  User :: string
  Name :: string

text \<open>\<^verbatim>\<open>mongodoc.ControllerStats\<close>; the counters are Go \<^verbatim>\<open>int\<close>s, each bounded by the number
  of deltas consumed, so they are modelled as unbounded integers.\<close>

record ControllerStats =
  UnitCount :: int
  ModelCount :: int
  ServiceCount :: int
  MachineCount :: int

datatype EntityCount = params_UnitCount | params_MachineCount | params_ApplicationCount

text \<open>\<^verbatim>\<open>modelChange\<close>: \<^verbatim>\<open>lifeChange = 1 << iota\<close>, \<^verbatim>\<open>countsChange\<close> the next bit.\<close>

definition lifeChange :: int where
  "lifeChange = 1"

definition countsChange :: int where
  "countsChange = 2"

record modelInfo =
  uuid :: string
  life :: string
  counts :: "EntityCount \<rightharpoonup> int"
  changed :: int

text \<open>The database operations a batch hands to its parallel runner (\<^verbatim>\<open>w.runner.Do\<close>).
  \<^verbatim>\<open>UpdateModelCounts\<close> also passes the wall-clock time of the call, which is left out.\<close>

datatype db_op =
    SetControllerStats EntityPath ControllerStats
  | SetModelLife EntityPath string string
  | UpdateModelCounts string "EntityCount \<rightharpoonup> int"
  | UpdateMachineInfo EntityInfo

text \<open>
  \<^verbatim>\<open>watcherState\<close>. \<open>entities\<close> is the Go map from entity id to bool, \<open>models\<close> the map from
  model UUID to its \<^verbatim>\<open>*modelInfo\<close>, kept as an association list so that the flush can range
  over it (the order Go ranges over a map in is unspecified; nothing below depends on it).
  \<open>runner\<close> collects the operations handed to the runner since the batch began.
\<close>

record watcherState =
  runner :: "db_op list"
  entities :: "EntityId \<rightharpoonup> bool"
  ctlPath :: EntityPath
  changed_w :: bool
  stats :: ControllerStats
  models :: "(string \<times> modelInfo) list"

definition newWatcherState :: "EntityPath \<Rightarrow> watcherState" where
  "newWatcherState p =
     \<lparr>runner = [], entities = Map.empty, ctlPath = p, changed_w = False,
      stats = \<lparr>UnitCount = 0, ModelCount = 0, ServiceCount = 0, MachineCount = 0\<rparr>,
      models = []\<rparr>"

text \<open>\<^verbatim>\<open>w.entities[id]\<close>: a missing key reads as false.\<close>

definition known :: "watcherState \<Rightarrow> EntityId \<Rightarrow> bool" where
  "known w i = (case entities w i of None \<Rightarrow> False | Some b \<Rightarrow> b)"

text \<open>\<^verbatim>\<open>info.adjustCount(kind, n)\<close> and \<^verbatim>\<open>info.setLife(life)\<close>.\<close>

definition adjustCount_info :: "modelInfo \<Rightarrow> EntityCount \<Rightarrow> int \<Rightarrow> modelInfo" where
  "adjustCount_info info kind n =
     (if n \<noteq> 0
      then info\<lparr>counts := (counts info)(kind \<mapsto> (case counts info kind of None \<Rightarrow> 0 | Some c \<Rightarrow> c) + n),
                changed := or (changed info) countsChange\<rparr>
      else info)"

definition setLife :: "modelInfo \<Rightarrow> string \<Rightarrow> modelInfo" where
  "setLife info lf =
     (if lf \<noteq> life info
      then info\<lparr>life := lf, changed := or (changed info) lifeChange\<rparr>
      else info)"

text \<open>\<^verbatim>\<open>w.modelInfo(uuid)\<close>: the entry of the model, created on first use with every
  change bit set (\<^verbatim>\<open>changed: ^0\<close>) and the three counts at zero.\<close>

definition new_modelInfo :: "string \<Rightarrow> modelInfo" where
  "new_modelInfo u =
     \<lparr>uuid = u, life = [],
      counts = [params_UnitCount \<mapsto> 0, params_MachineCount \<mapsto> 0, params_ApplicationCount \<mapsto> 0],
      changed = not 0\<rparr>"

definition modelInfo_w :: "watcherState \<Rightarrow> string \<Rightarrow> modelInfo \<times> watcherState" where
  "modelInfo_w w u =
     (case map_of (models w) u of
        Some info \<Rightarrow> (info, w)
      | None \<Rightarrow> (new_modelInfo u, w\<lparr>models := AList.update u (new_modelInfo u) (models w)\<rparr>))"

text \<open>The entry returned by \<^verbatim>\<open>w.modelInfo\<close> is a pointer; a method called on it updates
  the entry in the map.\<close>

definition with_modelInfo :: "watcherState \<Rightarrow> string \<Rightarrow> (modelInfo \<Rightarrow> modelInfo) \<Rightarrow> watcherState" where
  "with_modelInfo w u f =
     (case modelInfo_w w u of
        (info, w') \<Rightarrow> w'\<lparr>models := AList.update u (f info) (models w')\<rparr>)"

text \<open>\<^verbatim>\<open>w.adjustCount(&n, delta)\<close>: returns the difference applied to the counter, and the
  state with the entity set updated and \<open>changed\<close> raised; the caller's counter is updated
  by the returned difference through \<open>upd\<close>.\<close>

definition adjustCount ::
  "watcherState \<Rightarrow> (int \<Rightarrow> ControllerStats \<Rightarrow> ControllerStats) \<Rightarrow> Delta \<Rightarrow> int \<times> watcherState" where
  "adjustCount w upd delta =
     (let i = entityId (Entity delta);
          (diff, w1) =
            (if Removed delta
             then (if known w i then (- 1, w\<lparr>entities := (entities w)(i := None)\<rparr>) else (0, w))
             else if \<not> known w i then (1, w\<lparr>entities := (entities w)(i \<mapsto> True)\<rparr>)
             else (0, w))
      in if diff \<noteq> 0
         then (diff, w1\<lparr>stats := upd diff (stats w1), changed_w := True\<rparr>)
         else (diff, w1))"

definition add_ModelCount :: "int \<Rightarrow> ControllerStats \<Rightarrow> ControllerStats" where
  "add_ModelCount n s = s\<lparr>ModelCount := ModelCount s + n\<rparr>"

definition add_UnitCount :: "int \<Rightarrow> ControllerStats \<Rightarrow> ControllerStats" where
  "add_UnitCount n s = s\<lparr>UnitCount := UnitCount s + n\<rparr>"

definition add_ServiceCount :: "int \<Rightarrow> ControllerStats \<Rightarrow> ControllerStats" where
  "add_ServiceCount n s = s\<lparr>ServiceCount := ServiceCount s + n\<rparr>"

definition add_MachineCount :: "int \<Rightarrow> ControllerStats \<Rightarrow> ControllerStats" where
  "add_MachineCount n s = s\<lparr>MachineCount := MachineCount s + n\<rparr>"

text \<open>\<^verbatim>\<open>w.addDelta(d)\<close>. The Go function returns an error that is always nil; logging and
  the Prometheus gauges are left out.\<close>

definition addDelta :: "watcherState \<Rightarrow> Delta \<Rightarrow> watcherState" where
  "addDelta w d =
     (case Entity d of
        ModelInfo u lf \<Rightarrow>
          (case adjustCount w add_ModelCount d of
             (diff, w1) \<Rightarrow>
               with_modelInfo w1 u (\<lambda>info. setLife info (if \<not> Removed d then lf else ''dead'')))
      | UnitInfo u name \<Rightarrow>
          (case adjustCount w add_UnitCount d of
             (diff, w1) \<Rightarrow> with_modelInfo w1 u (\<lambda>info. adjustCount_info info params_UnitCount diff))
      | ApplicationInfo u name \<Rightarrow>
          (case adjustCount w add_ServiceCount d of
             (diff, w1) \<Rightarrow> with_modelInfo w1 u (\<lambda>info. adjustCount_info info params_ApplicationCount diff))
      | MachineInfo u mid \<Rightarrow>
          (case adjustCount w add_MachineCount d of
             (diff, w1) \<Rightarrow>
               (let w2 = with_modelInfo w1 u (\<lambda>info. adjustCount_info info params_MachineCount diff)
                in w2\<lparr>runner := runner w2 @ [UpdateMachineInfo (Entity d)]\<rparr>))
      | OtherInfo i \<Rightarrow> w)"

text \<open>The flush of one model entry: the operations issued for it, and the entry with its
  change mask cleared.\<close>

definition flush_model :: "EntityPath \<Rightarrow> string \<times> modelInfo \<Rightarrow> db_op list" where
  "flush_model p e =
     (case e of (u, info) \<Rightarrow>
        (if and (changed info) lifeChange \<noteq> 0 then [SetModelLife p u (life info)] else []) @
        (if and (changed info) countsChange \<noteq> 0 then [UpdateModelCounts u (counts info)] else []))"

definition clear_changed :: "string \<times> modelInfo \<Rightarrow> string \<times> modelInfo" where
  "clear_changed e = (case e of (u, info) \<Rightarrow> (u, info\<lparr>changed := 0\<rparr>))"

text \<open>
  One round of the loop of \<^verbatim>\<open>controllerMonitor.watch\<close>, from the arrival of a batch to the
  call of \<^verbatim>\<open>w.runner.Wait()\<close>: the result is the list of operations handed to the runner and
  the state the next round starts from.
\<close>

definition watch_batch :: "watcherState \<Rightarrow> Delta list \<Rightarrow> db_op list \<times> watcherState" where
  "watch_batch w deltas =
     (let w1 = foldl addDelta (w\<lparr>changed_w := False, runner := []\<rparr>) deltas;
          ops = runner w1
                @ (if changed_w w1 then [SetControllerStats (ctlPath w1) (stats w1)] else [])
                @ concat (map (flush_model (ctlPath w1)) (models w1))
      in (ops, w1\<lparr>models := map clear_changed (models w1), runner := []\<rparr>))"

subsection \<open>The reducer's contract\<close>

text \<open>The entity types the reducer counts.\<close>

definition tracked :: "EntityInfo \<Rightarrow> bool" where
  "tracked e = (case e of OtherInfo i \<Rightarrow> False | _ \<Rightarrow> True)"

text \<open>A delta reports the entity \<open>i\<close> as present, respectively as removed.\<close>

definition adds :: "Delta \<Rightarrow> EntityId \<Rightarrow> bool" where
  "adds d i = (tracked (Entity d) \<and> entityId (Entity d) = i \<and> \<not> Removed d)"

definition removes :: "Delta \<Rightarrow> EntityId \<Rightarrow> bool" where
  "removes d i = (tracked (Entity d) \<and> entityId (Entity d) = i \<and> Removed d)"

text \<open>
  Following the specification: the distinct entity ids of kind \<open>k\<close> that have appeared in
  a non-removed delta of \<open>ds\<close> and have not been removed by a later delta of \<open>ds\<close>.
\<close>

definition live_ids :: "string \<Rightarrow> Delta list \<Rightarrow> EntityId list" where
  "live_ids k ds =
     remdups (map (\<lambda>n. entityId (Entity (ds ! n)))
       (filter (\<lambda>n. adds (ds ! n) (entityId (Entity (ds ! n)))
                   \<and> Kind (entityId (Entity (ds ! n))) = k
                   \<and> (\<forall>m \<in> set [Suc n..<length ds]. \<not> removes (ds ! m) (entityId (Entity (ds ! n)))))
          [0..<length ds]))"

text \<open>The same condition as a predicate on entity ids of any kind.\<close>

definition live :: "Delta list \<Rightarrow> EntityId \<Rightarrow> bool" where
  "live ds i = (\<exists>n<length ds. adds (ds ! n) i \<and> (\<forall>m. n < m \<and> m < length ds \<longrightarrow> \<not> removes (ds ! m) i))"

text \<open>The number of known entities of a kind, and the invariant tying the four counters
  of \<open>stats\<close> to the entity set.\<close>

definition cnt :: "watcherState \<Rightarrow> string \<Rightarrow> int" where
  "cnt w k = int (card {i. known w i \<and> Kind i = k})"

definition stats_inv :: "watcherState \<Rightarrow> bool" where
  "stats_inv w = (finite {i. known w i}
     \<and> ModelCount (stats w) = cnt w ''model''
     \<and> UnitCount (stats w) = cnt w ''unit''
     \<and> ServiceCount (stats w) = cnt w ''application''
     \<and> MachineCount (stats w) = cnt w ''machine'')"

text \<open>The difference \<^verbatim>\<open>w.adjustCount\<close> returns for a delta.\<close>

definition diff_of :: "watcherState \<Rightarrow> Delta \<Rightarrow> int" where
  "diff_of w d = (if Removed d then (if known w (entityId (Entity d)) then - 1 else 0)
                  else (if known w (entityId (Entity d)) then 0 else 1))"

text \<open>The field \<^verbatim>\<open>ModelUUID\<close> of a counted entity: the model whose entry \<^verbatim>\<open>addDelta\<close>
  looks up.\<close>

fun delta_model :: "EntityInfo \<Rightarrow> string option" where
  "delta_model (ModelInfo u lf) = Some u"
| "delta_model (UnitInfo u name) = Some u"
| "delta_model (ApplicationInfo u name) = Some u"
| "delta_model (MachineInfo u mid) = Some u"
| "delta_model (OtherInfo i) = None"

text \<open>The entry of model \<open>u\<close> exists and has both change bits raised.\<close>

definition both_set :: "watcherState \<Rightarrow> string \<Rightarrow> bool" where
  "both_set w u = (\<exists>info. map_of (models w) u = Some info
      \<and> and (changed info) lifeChange \<noteq> 0 \<and> and (changed info) countsChange \<noteq> 0)"

text \<open>An update of an entry that never lowers a change bit.\<close>

definition keeps_bits :: "(modelInfo \<Rightarrow> modelInfo) \<Rightarrow> bool" where
  "keeps_bits f = (\<forall>info m. and (changed info) m \<noteq> 0 \<longrightarrow> and (changed (f info)) m \<noteq> 0)"

text \<open>The reducer's state when the last delta of a batch has been added, before the flush.\<close>

definition batch_state :: "watcherState \<Rightarrow> Delta list \<Rightarrow> watcherState" where
  "batch_state w deltas = foldl addDelta (w\<lparr>changed_w := False, runner := []\<rparr>) deltas"

text \<open>A delta stream used to evaluate the reducer: two models, a unit, a removal of a
  unit never seen, and the removal of the first model.\<close>

definition example_deltas :: "Delta list" where
  "example_deltas =
     [\<lparr>Removed = False, Entity = ModelInfo ''a'' ''alive''\<rparr>,
      \<lparr>Removed = False, Entity = UnitInfo ''a'' ''u/0''\<rparr>,
      \<lparr>Removed = False, Entity = ModelInfo ''a'' ''dying''\<rparr>,
      \<lparr>Removed = True, Entity = UnitInfo ''a'' ''u/1''\<rparr>,
      \<lparr>Removed = False, Entity = ModelInfo ''b'' ''alive''\<rparr>,
      \<lparr>Removed = True, Entity = ModelInfo ''a'' ''dying''\<rparr>]"

definition example_ctl :: EntityPath where
  "example_ctl = \<lparr>User = ''bob'', Name = ''ctl''\<rparr>"

section \<open>Controller monitor: the lease loop (package monitor)\<close>

text \<open>Times and durations are counted in nanoseconds, as \<^verbatim>\<open>time.Duration\<close> does.\<close>

type_synonym time = int
type_synonym duration = int

record controllerMonitor =
  leaseExpiry :: time
  m_ctlPath :: EntityPath
  ownerId :: string







text \<open>
  One round of the loop of \<^verbatim>\<open>leaseUpdater\<close>. \<open>renewTime\<close> is the time the round sleeps
  until; Go's \<^verbatim>\<open>/\<close> on the negated duration truncates towards zero. \<open>sleep_duration\<close> is
  the argument of \<^verbatim>\<open>Clock.After\<close>, with \<open>now\<close> the reading of the clock when the round begins.
\<close>

definition renewTime :: "duration \<Rightarrow> controllerMonitor \<Rightarrow> time" where
  "renewTime leaseExpiryDuration m = leaseExpiry m + (- leaseExpiryDuration) sdiv 4"



definition ctlPath_text :: "EntityPath \<Rightarrow> string" where
  "ctlPath_text p = User p @ ''/'' @ Name p"


text \<open>A monitor and a lease manager used to evaluate the loop: a lease of sixty seconds
  that expires at second one hundred, and a manager that grants what it is asked for.\<close>

definition example_monitor :: controllerMonitor where
  "example_monitor = \<lparr>leaseExpiry = 100000000000, m_ctlPath = example_ctl, ownerId = ''jimm-0''\<rparr>"


section \<open>The API gateway (package jujuapi)\<close>

subsection \<open>Errors on the wire\<close>

text \<open>\<^verbatim>\<open>jujuparams.Error\<close>, the error a client receives, and the two codes of the juju API
  the gateway names.\<close>

record jujuparams_Error =
  Message :: string
  Code :: string

definition CodeNotFound :: string where
  "CodeNotFound = ''not found''"

definition CodeNotSupported :: string where
  "CodeNotSupported = ''not supported''"

text \<open>\<^verbatim>\<open>mapError\<close>: an API error value passes unchanged; any other error keeps its text and
  gets the code \<^verbatim>\<open>CodeNotFound\<close> if its cause is \<^verbatim>\<open>params.ErrNotFound\<close>, no code otherwise.\<close>

fun mapError :: "error option \<Rightarrow> jujuparams_Error option" where
  "mapError None = None"
| "mapError (Some (ParamsError m c)) = Some \<lparr>Message = m, Code = c\<rparr>"
| "mapError (Some (Errgo c m)) =
     Some \<lparr>Message = m, Code = (if c = ErrNotFound then CodeNotFound else [])\<rparr>"

subsection \<open>Finding the method of an RPC\<close>

record mongodoc_Model =
  m_Id :: string
  m_UUID :: string
  m_Path :: EntityPath
  m_Controller :: EntityPath

record mongodoc_Controller =
  c_Id :: string
  c_UUID :: string

text \<open>The two lookups of the store that \<^verbatim>\<open>resolveUUID\<close> calls; the store is a collaborator.\<close>

record jem_lookups =
  ModelFromUUID :: "string \<Rightarrow> error + mongodoc_Model"
  Controller :: "EntityPath \<Rightarrow> error + mongodoc_Controller"

text \<open>\<^verbatim>\<open>wsHandler\<close>: the model UUID of the URL path, the model and controller resolved from
  it, and the user name of the connection (\<^verbatim>\<open>h.jem.Auth.Username\<close>), empty before login.\<close>

record wsHandler =
  modelUUID :: string
  model :: "mongodoc_Model option"
  controller :: "mongodoc_Controller option"
  Username :: string

text \<open>The errors \<^verbatim>\<open>FindMethod\<close> returns: \<^verbatim>\<open>rpcreflect.CallNotImplementedError\<close> with its root
  method, version and method, \<^verbatim>\<open>rpc.RequestError\<close> with its code and message, or a plain Go
  error.\<close>

datatype rpc_error =
    CallNotImplementedError string int string
  | RequestError string string
  | GoError error

datatype MethodCaller = MethodCaller string string

text \<open>\<^verbatim>\<open>facades\<close>: the facade versions supported, as the Go map literal lists them.\<close>

definition facades :: "((string \<times> int) \<times> string) list" where
  "facades =
     [((''Admin'', 3), ''Admin''), ((''Cloud'', 1), ''Cloud''),
      ((''ModelManager'', 2), ''ModelManager''), ((''Pinger'', 1), ''Pinger'')]"

text \<open>\<^verbatim>\<open>facades[facade{rootName, version}]\<close>: a missing key reads as the empty string.\<close>

definition facades_lookup :: "string \<Rightarrow> int \<Rightarrow> string" where
  "facades_lookup rootName version =
     (case map_of facades (rootName, version) of None \<Rightarrow> [] | Some rn \<Rightarrow> rn)"

text \<open>The exported methods of the four facade types \<^verbatim>\<open>admin\<close>, \<^verbatim>\<open>cloud\<close>, \<^verbatim>\<open>modelManager\<close>
  and \<^verbatim>\<open>pinger\<close>, which the methods of \<^verbatim>\<open>root\<close> return.\<close>

definition root_methods :: "(string \<times> string list) list" where
  "root_methods =
     [(''Admin'', [''Login'', ''RedirectInfo'']),
      (''Cloud'', [''Cloud'', ''CloudDefaults'', ''Credentials'', ''UpdateCredentials'']),
      (''ModelManager'', [''ListModels'', ''ModelInfo'', ''CreateModel'']),
      (''Pinger'', [''Ping''])]"

text \<open>The reflection lookup of the RPC library, \<^verbatim>\<open>rpcreflect.ValueOf(root{h}).FindMethod\<close>:
  only version 0 exists, and an unknown root method or object method is not implemented.\<close>

definition rpcreflect_FindMethod :: "string \<Rightarrow> int \<Rightarrow> string \<Rightarrow> rpc_error + MethodCaller" where
  "rpcreflect_FindMethod rootName version objMethodName =
     (if version \<noteq> 0 then Inl (CallNotImplementedError rootName version [])
      else case map_of root_methods rootName of
             None \<Rightarrow> Inl (CallNotImplementedError rootName 0 [])
           | Some ms \<Rightarrow>
               if objMethodName \<in> set ms then Inr (MethodCaller rootName objMethodName)
               else Inl (CallNotImplementedError rootName 0 objMethodName))"

text \<open>\<^verbatim>\<open>resolveUUID\<close>: finds the model of the URL's UUID and its controller.\<close>

definition resolveUUID :: "jem_lookups \<Rightarrow> wsHandler \<Rightarrow> error option \<times> wsHandler" where
  "resolveUUID j h =
     (if modelUUID h = [] then (None, h)
      else case ModelFromUUID j (modelUUID h) of
             Inl err \<Rightarrow> (Some (Mask err (\<lambda>c. c = ErrNotFound)), h\<lparr>model := None\<rparr>)
           | Inr m \<Rightarrow>
               (case Controller j (m_Controller m) of
                  Inl err \<Rightarrow> (Some (Mask err no_pass), h\<lparr>model := Some m, controller := None\<rparr>)
                | Inr c \<Rightarrow> (None, h\<lparr>model := Some m, controller := Some c\<rparr>)))"

text \<open>The first step of \<^verbatim>\<open>FindMethod\<close>: resolve the UUID unless model and controller are
  already known.\<close>

definition resolve_step :: "jem_lookups \<Rightarrow> wsHandler \<Rightarrow> error option \<times> wsHandler" where
  "resolve_step j h =
     (if model h = None \<or> controller h = None then resolveUUID j h else (None, h))"

definition FindMethod ::
  "jem_lookups \<Rightarrow> wsHandler \<Rightarrow> string \<Rightarrow> int \<Rightarrow> string \<Rightarrow> (rpc_error + MethodCaller) \<times> wsHandler" where
  "FindMethod j h rootName version methodName =
     (case resolve_step j h of
        (Some err, h') \<Rightarrow> (Inl (GoError (Mask err no_pass)), h')
      | (None, h') \<Rightarrow>
          if Username h' = [] \<and> rootName \<noteq> ''Admin''
          then (Inl (CallNotImplementedError rootName version []), h')
          else if rootName = ''Admin'' \<and> version < 3
          then (Inl (RequestError CodeNotSupported ''JAAS does not support login from old clients''), h')
          else if facades_lookup rootName version \<noteq> []
          then (rpcreflect_FindMethod (facades_lookup rootName version) 0 methodName, h')
          else (Inl (CallNotImplementedError rootName version []), h'))"

text \<open>A tuple is in the registered tables if its facade version is listed in \<open>facades\<close> and
  the facade has the method.\<close>

definition registered :: "string \<Rightarrow> int \<Rightarrow> string \<Rightarrow> bool" where
  "registered rootName version methodName =
     (case map_of facades (rootName, version) of
        None \<Rightarrow> False
      | Some rn \<Rightarrow>
          (case map_of root_methods rn of None \<Rightarrow> False | Some ms \<Rightarrow> methodName \<in> set ms))"

fun is_CallNotImplemented :: "rpc_error + MethodCaller \<Rightarrow> bool" where
  "is_CallNotImplemented (Inl (CallNotImplementedError r v m)) = True"
| "is_CallNotImplemented x = False"

text \<open>A store that knows no model, and a connection whose URL names a model.\<close>

definition empty_store :: jem_lookups where
  "empty_store =
     \<lparr>ModelFromUUID = (\<lambda>u. Inl (Errgo ErrNotFound ''model not found'')),
      Controller = (\<lambda>p. Inl (Errgo ErrNotFound ''controller not found''))\<rparr>"

definition model_connection :: wsHandler where
  "model_connection =
     \<lparr>modelUUID = ''00000000-0000-0000-0000-000000000001'', model = None, controller = None,
      Username = []\<rparr>"

definition controller_connection :: wsHandler where
  "controller_connection = \<lparr>modelUUID = [], model = None, controller = None, Username = []\<rparr>"

subsection \<open>The ModelManager facade\<close>

text \<open>The results of the juju API: every result carries an optional error, most carry a
  value besides.\<close>

record ErrorResult =
  Error :: "jujuparams_Error option"


text \<open>\<^verbatim>\<open>jujuparams.ModelInfo\<close>, with the fields the gateway reads or writes; \<open>mi_Users\<close> holds
  the user names of the model's users.\<close>

record jujuparams_ModelInfo =
  mi_Name :: string
  mi_UUID :: string
  mi_ControllerUUID :: string
  mi_Users :: "string list"


text \<open>The tag parsers \<^verbatim>\<open>names.ParseModelTag\<close> and \<^verbatim>\<open>conv.ParseUserTag\<close> are collaborators: each
  yields the id of a well-formed tag or an error.\<close>

record tag_parsers =
  ParseModelTag :: "string \<Rightarrow> error + string"
  ParseUserTag :: "string \<Rightarrow> error + string"

text \<open>\<^verbatim>\<open>controllerRoot\<close>: the configuration a request reads, and the identity of the caller.\<close>

record controllerRoot =
  controllerUUIDMasking :: bool
  params_ControllerUUID :: string
  identity :: string

text \<open>
  The calls into the orchestrator (\<^verbatim>\<open>r.jem\<close>), a collaborator of the facade. Calls that write
  thread the orchestrator's state \<open>'s\<close>. \<open>GetModelInfo\<close> fills in the info it is given.
\<close>

record 's jem_calls =
  GetModelInfo :: "string \<Rightarrow> jujuparams_ModelInfo \<Rightarrow> bool \<Rightarrow> error option \<times> jujuparams_ModelInfo"
  GrantModel :: "'s \<Rightarrow> string \<Rightarrow> string \<Rightarrow> string \<Rightarrow> string \<Rightarrow> error option \<times> 's"
  RevokeModel :: "'s \<Rightarrow> string \<Rightarrow> string \<Rightarrow> string \<Rightarrow> string \<Rightarrow> error option \<times> 's"
  DestroyModel ::
    "'s \<Rightarrow> string \<Rightarrow> string \<Rightarrow> bool option \<Rightarrow> bool option \<Rightarrow> duration option \<Rightarrow> error option \<times> 's"

text \<open>The rewriting every operation below applies to the error of its lookup:
  \<^verbatim>\<open>if errgo.Cause(err) == params.ErrNotFound { err = params.ErrUnauthorized }\<close>.\<close>

definition hide_not_found :: "error option \<Rightarrow> error option" where
  "hide_not_found err =
     (case err of
        None \<Rightarrow> None
      | Some e \<Rightarrow> if Cause e = ErrNotFound then Some params_ErrUnauthorized else Some e)"



text \<open>\<^verbatim>\<open>controllerRoot.ModifyModelAccess\<close>. \<^verbatim>\<open>%q\<close> prints the action between double quotes.\<close>

record ModifyModelAccess =
  UserTag :: string
  Action :: string
  Access :: string
  ModelTag :: string

definition GrantModelAccess :: string where
  "GrantModelAccess = ''grant''"

definition RevokeModelAccess :: string where
  "RevokeModelAccess = ''revoke''"

definition quoted :: "string \<Rightarrow> string" where
  "quoted s = CHR 0x22 # s @ [CHR 0x22]"

definition ModifyModelAccess_change ::
  "tag_parsers \<Rightarrow> 's jem_calls \<Rightarrow> controllerRoot \<Rightarrow> 's \<Rightarrow> ModifyModelAccess \<Rightarrow> ErrorResult \<times> 's" where
  "ModifyModelAccess_change p j r s change =
     (case ParseModelTag p (ModelTag change) of
        Inl err \<Rightarrow> (\<lparr>Error = mapError (Some (WithCausef err ErrBadRequest []))\<rparr>, s)
      | Inr mt \<Rightarrow>
          (case ParseUserTag p (UserTag change) of
             Inl err \<Rightarrow> (\<lparr>Error = mapError (Some (WithCausef err ErrBadRequest []))\<rparr>, s)
           | Inr user \<Rightarrow>
               (case (if Action change = GrantModelAccess
                      then GrantModel j s (identity r) mt user (Access change)
                      else if Action change = RevokeModelAccess
                      then RevokeModel j s (identity r) mt user (Access change)
                      else (Some (Errgo ErrBadRequest (''invalid action '' @ quoted (Action change))), s)) of
                  (err, s') \<Rightarrow> (\<lparr>Error = mapError (hide_not_found err)\<rparr>, s'))))"

fun controllerRoot_ModifyModelAccess ::
  "tag_parsers \<Rightarrow> 's jem_calls \<Rightarrow> controllerRoot \<Rightarrow> 's \<Rightarrow> ModifyModelAccess list
     \<Rightarrow> ErrorResult list \<times> 's" where
  "controllerRoot_ModifyModelAccess p j r s [] = ([], s)"
| "controllerRoot_ModifyModelAccess p j r s (change # changes) =
     (case ModifyModelAccess_change p j r s change of
        (res, s') \<Rightarrow>
          (case controllerRoot_ModifyModelAccess p j r s' changes of
             (rs, s'') \<Rightarrow> (res # rs, s'')))"





text \<open>\<^verbatim>\<open>DestroyModelsV4\<close>, and \<^verbatim>\<open>DestroyModels\<close> of the older facade versions, which destroys
  the storage too.\<close>

record DestroyModelParams =
  dm_ModelTag :: string
  DestroyStorage :: "bool option"
  Force :: "bool option"
  MaxWait :: "duration option"

definition DestroyModelsV4_entry ::
  "tag_parsers \<Rightarrow> 's jem_calls \<Rightarrow> controllerRoot \<Rightarrow> 's \<Rightarrow> DestroyModelParams \<Rightarrow> ErrorResult \<times> 's" where
  "DestroyModelsV4_entry p j r s m =
     (case ParseModelTag p (dm_ModelTag m) of
        Inl err \<Rightarrow> (\<lparr>Error = mapError (Some (WithCausef err ErrBadRequest []))\<rparr>, s)
      | Inr mt \<Rightarrow>
          (case DestroyModel j s (identity r) mt (DestroyStorage m) (Force m) (MaxWait m) of
             (Some err, s') \<Rightarrow>
               (if Cause err \<noteq> ErrNotFound then \<lparr>Error = mapError (Some err)\<rparr> else \<lparr>Error = None\<rparr>, s')
           | (None, s') \<Rightarrow> (\<lparr>Error = None\<rparr>, s')))"

fun DestroyModelsV4 ::
  "tag_parsers \<Rightarrow> 's jem_calls \<Rightarrow> controllerRoot \<Rightarrow> 's \<Rightarrow> DestroyModelParams list
     \<Rightarrow> ErrorResult list \<times> 's" where
  "DestroyModelsV4 p j r s [] = ([], s)"
| "DestroyModelsV4 p j r s (m # ms) =
     (case DestroyModelsV4_entry p j r s m of
        (res, s') \<Rightarrow>
          (case DestroyModelsV4 p j r s' ms of (rs, s'') \<Rightarrow> (res # rs, s'')))"

definition DestroyModels ::
  "tag_parsers \<Rightarrow> 's jem_calls \<Rightarrow> controllerRoot \<Rightarrow> 's \<Rightarrow> string list \<Rightarrow> ErrorResult list \<times> 's" where
  "DestroyModels p j r s tags =
     DestroyModelsV4 p j r s
       (map (\<lambda>tag. \<lparr>dm_ModelTag = tag, DestroyStorage = Some True, Force = None, MaxWait = None\<rparr>) tags)"

subsection \<open>The ModelManager facade of the first gateway\<close>







text \<open>Collaborators used to evaluate the facade: parsers that strip the tag's prefix, an
  orchestrator and a store that know no model, and a gateway configuration.\<close>

definition example_parsers :: tag_parsers where
  "example_parsers =
     \<lparr>ParseModelTag = (\<lambda>t. if take 6 t = ''model-'' then Inr (drop 6 t)
                             else Inl (Errgo CauseSelf (quoted t @ '' is not a valid model tag''))),
      ParseUserTag = (\<lambda>t. if take 5 t = ''user-'' then Inr (drop 5 t)
                            else Inl (Errgo CauseSelf (quoted t @ '' is not a valid user tag'')))\<rparr>"

definition model_not_found :: error where
  "model_not_found = Errgo ErrNotFound ''model not found''"

definition empty_jem :: "unit jem_calls" where
  "empty_jem =
     \<lparr>GetModelInfo = (\<lambda>i info single. (Some model_not_found, info)),
      GrantModel = (\<lambda>s i mt user access. (Some model_not_found, s)),
      RevokeModel = (\<lambda>s i mt user access. (Some model_not_found, s)),
      DestroyModel = (\<lambda>s i mt ds f w. (Some model_not_found, s))\<rparr>"


definition example_root :: controllerRoot where
  "example_root =
     \<lparr>controllerUUIDMasking = True,
      params_ControllerUUID = ''914487b5-60e7-42bb-bd63-1adc3fd3a388'',
      identity = ''bob''\<rparr>"

definition example_model_tag :: string where
  "example_model_tag = ''model-00000000-0000-0000-0000-000000000001''"

section \<open>The watcher (package jimm)\<close>

subsection \<open>The store\<close>

text \<open>\<^verbatim>\<open>dbmodel.Model\<close> with the fields the watcher reads: the primary key, the nullable UUID,
  the controller's key and the life; \<open>m_Info\<close> stands for the columns a model update fills.\<close>

record dbmodel_Model =
  ID :: nat
  UUID :: "string option"
  ControllerID :: nat
  Life :: string
  m_Info :: string

record dbmodel_Controller =
  ctl_ID :: nat
  ctl_Name :: string

text \<open>A row of one of the tables of applications, machines and units: the model's key, the
  name (or machine id) and the columns an update fills.\<close>

record entity_row =
  ModelID :: nat
  row_Name :: string
  row_Info :: string

record Database =
  Models :: "dbmodel_Model list"
  Applications :: "entity_row list"
  Machines :: "entity_row list"
  Units :: "entity_row list"

definition UUID_String :: "dbmodel_Model \<Rightarrow> string" where
  "UUID_String m = (case UUID m of None \<Rightarrow> [] | Some u \<Rightarrow> u)"

definition new_Model :: dbmodel_Model where
  "new_Model = \<lparr>ID = 0, UUID = None, ControllerID = 0, Life = [], m_Info = []\<rparr>"

text \<open>
  The methods of \<^verbatim>\<open>db.Database\<close> are not among the sources. The store is taken to hold its
  rows in a fixed order and not to fail on its own.
\<close>

text \<open>Modelled from the spec: \<^verbatim>\<open>Database.GetModel\<close>, which is not among the sources. It finds
  a row by its key if the key is set and by UUID and controller otherwise, and reports
  \<^verbatim>\<open>CodeNotFound\<close> if there is none.\<close>

definition GetModel :: "Database \<Rightarrow> dbmodel_Model \<Rightarrow> error + dbmodel_Model" where
  "GetModel db m =
     (case find (\<lambda>r. if ID m \<noteq> 0 then ID r = ID m
                      else UUID r = UUID m \<and> ControllerID r = ControllerID m) (Models db) of
        None \<Rightarrow> Inl (Errgo ErrNotFound ''model not found'')
      | Some r \<Rightarrow> Inr r)"

text \<open>Modelled from the spec: \<^verbatim>\<open>Database.DeleteModel\<close>, which is not among the sources. It
  removes the row with the model's key.\<close>

definition DeleteModel :: "Database \<Rightarrow> dbmodel_Model \<Rightarrow> error option \<times> Database" where
  "DeleteModel db m = (None, db\<lparr>Models := filter (\<lambda>r. ID r \<noteq> ID m) (Models db)\<rparr>)"

text \<open>Modelled from the spec: \<^verbatim>\<open>Database.UpdateModel\<close>, which is not among the sources. It
  replaces the row with the model's key.\<close>

definition UpdateModel :: "Database \<Rightarrow> dbmodel_Model \<Rightarrow> error option \<times> Database" where
  "UpdateModel db m = (None, db\<lparr>Models := map (\<lambda>r. if ID r = ID m then m else r) (Models db)\<rparr>)"

text \<open>Modelled from the spec: \<^verbatim>\<open>Database.Transaction\<close>, which is not among the sources. It
  keeps the changes of its function unless the function fails.\<close>

definition Transaction ::
  "Database \<Rightarrow> (Database \<Rightarrow> error option \<times> Database) \<Rightarrow> error option \<times> Database" where
  "Transaction db f = (case f db of (Some err, db') \<Rightarrow> (Some err, db) | (None, db') \<Rightarrow> (None, db'))"

text \<open>Modelled from the spec: \<^verbatim>\<open>Database.ForEachControllerModel\<close>, which is not among the
  sources. It visits the models of a controller in order and stops at the first error of
  its function, which it returns; \<open>for_each\<close> is that loop (the loop over the checks of
  \<^verbatim>\<open>checkControllerModels\<close> has the same shape).\<close>

fun for_each :: "('s \<Rightarrow> 'a \<Rightarrow> error option \<times> 's) \<Rightarrow> 's \<Rightarrow> 'a list \<Rightarrow> error option \<times> 's" where
  "for_each f s [] = (None, s)"
| "for_each f s (x # xs) =
     (case f s x of (Some err, s') \<Rightarrow> (Some err, s') | (None, s') \<Rightarrow> for_each f s' xs)"

text \<open>Rows of applications, machines and units are identified by model and name.\<close>

definition same_row :: "entity_row \<Rightarrow> entity_row \<Rightarrow> bool" where
  "same_row a b = (ModelID a = ModelID b \<and> row_Name a = row_Name b)"

definition delete_row :: "entity_row list \<Rightarrow> entity_row \<Rightarrow> entity_row list" where
  "delete_row rows a = filter (\<lambda>b. \<not> same_row a b) rows"

definition update_row :: "entity_row list \<Rightarrow> entity_row \<Rightarrow> entity_row list" where
  "update_row rows a =
     (if \<exists>b \<in> set rows. same_row a b then map (\<lambda>b. if same_row a b then a else b) rows
      else rows @ [a])"

text \<open>\<^verbatim>\<open>errors.E(op, err)\<close> notes the operation and keeps the code and text of the error.\<close>

definition E :: "string \<Rightarrow> error \<Rightarrow> error" where
  "E op err = err"

subsection \<open>Reconciliation of dying models\<close>

text \<open>
  The state the reconciliation threads: the store, the model UUIDs the controller has
  been asked about so far, and the map \<open>modelIDs\<close> under construction. The controller's
  answer to \<^verbatim>\<open>api.ModelInfo\<close> for a UUID is the collaborator \<open>api\<close>: \<open>None\<close> if the call
  succeeds, the error otherwise.
\<close>

record check_state =
  cs_db :: Database
  queried :: "string list"
  modelIDs :: "string \<rightharpoonup> nat"

text \<open>The closure \<^verbatim>\<open>checkDyingModel\<close> of \<^verbatim>\<open>watchController\<close>.\<close>

definition checkDyingModel ::
  "(string \<Rightarrow> error option) \<Rightarrow> check_state \<Rightarrow> dbmodel_Model \<Rightarrow> error option \<times> check_state" where
  "checkDyingModel api s m =
     (if Life m = ''dying''
      then (let s1 = s\<lparr>queried := queried s @ [UUID_String m]\<rparr>
            in case api (UUID_String m) of
                 Some err \<Rightarrow>
                   if Cause err = ErrNotFound
                   then (case DeleteModel (cs_db s1) m of
                           (Some err', db') \<Rightarrow> (Some (E ''jimm.watchController'' err'), s1\<lparr>cs_db := db'\<rparr>)
                         | (None, db') \<Rightarrow> (None, s1\<lparr>cs_db := db'\<rparr>))
                   else (Some (E ''jimm.watchController'' err), s1)
               | None \<Rightarrow> (None, s1))
      else (None, s))"

text \<open>\<^verbatim>\<open>checkControllerModels\<close>: the function it hands to \<^verbatim>\<open>ForEachControllerModel\<close>, and the
  whole call, started with an empty map.\<close>

definition check_model ::
  "(check_state \<Rightarrow> dbmodel_Model \<Rightarrow> error option \<times> check_state) list
     \<Rightarrow> check_state \<Rightarrow> dbmodel_Model \<Rightarrow> error option \<times> check_state" where
  "check_model checks s m =
     (if UUID m = None then (None, s)
      else case for_each (\<lambda>s' check. check s' m) s checks of
             (Some err, s') \<Rightarrow> (Some (E ''jimm.checkControllerModels'' err), s')
           | (None, s') \<Rightarrow> (None, s'\<lparr>modelIDs := (modelIDs s')(UUID_String m \<mapsto> ID m)\<rparr>))"

definition checkControllerModels ::
  "Database \<Rightarrow> dbmodel_Controller
     \<Rightarrow> (check_state \<Rightarrow> dbmodel_Model \<Rightarrow> error option \<times> check_state) list
     \<Rightarrow> (error + (string \<rightharpoonup> nat)) \<times> check_state" where
  "checkControllerModels db ctl checks =
     (case for_each (check_model checks) \<lparr>cs_db = db, queried = [], modelIDs = Map.empty\<rparr>
             (filter (\<lambda>m. ControllerID m = ctl_ID ctl) (Models db)) of
        (Some err, s) \<Rightarrow> (Inl (E ''jimm.checkControllerModels'' err), s)
      | (None, s) \<Rightarrow> (Inr (modelIDs s), s))"

text \<open>The reconciliation as \<^verbatim>\<open>watchController\<close> runs it, between the start of the watcher and
  the first wait for deltas.\<close>

definition reconcile ::
  "(string \<Rightarrow> error option) \<Rightarrow> Database \<Rightarrow> dbmodel_Controller
     \<Rightarrow> (error + (string \<rightharpoonup> nat)) \<times> check_state" where
  "reconcile api db ctl = checkControllerModels db ctl [checkDyingModel api]"

text \<open>A model the reconciliation is to delete: a model of the controller with a UUID, dying,
  that the controller reports as not found.\<close>

definition is_not_found :: "error option \<Rightarrow> bool" where
  "is_not_found r = (case r of None \<Rightarrow> False | Some err \<Rightarrow> Cause err = ErrNotFound)"

definition doomed :: "(string \<Rightarrow> error option) \<Rightarrow> dbmodel_Controller \<Rightarrow> dbmodel_Model \<Rightarrow> bool" where
  "doomed api ctl m =
     (ControllerID m = ctl_ID ctl \<and> UUID m \<noteq> None \<and> Life m = ''dying''
      \<and> is_not_found (api (UUID_String m)))"

subsection \<open>Handling a delta\<close>

text \<open>
  The entities of a delta of the watcher (\<^verbatim>\<open>jujuparams.Delta\<close>): application, machine, model
  update and unit, each with the model's UUID, its name or id and the columns it carries (a
  model update carries the life first); \<open>jp_OtherInfo\<close> is an entity of any other type. The
  kind of an entity is fixed by its type, so \<^verbatim>\<open>handleDelta\<close>'s switch on the kind is a
  switch on the type.
\<close>

datatype jujuparams_EntityInfo =
    jp_ApplicationInfo string string string
  | jp_MachineInfo string string string
  | jp_ModelUpdate string string string
  | jp_UnitInfo string string string
  | jp_OtherInfo EntityId

fun jp_EntityId :: "jujuparams_EntityInfo \<Rightarrow> EntityId" where
  "jp_EntityId (jp_ApplicationInfo u n i) = \<lparr>Kind = ''application'', ModelUUID = u, Id_e = n\<rparr>"
| "jp_EntityId (jp_MachineInfo u n i) = \<lparr>Kind = ''machine'', ModelUUID = u, Id_e = n\<rparr>"
| "jp_EntityId (jp_ModelUpdate u lf i) = \<lparr>Kind = ''model'', ModelUUID = u, Id_e = u\<rparr>"
| "jp_EntityId (jp_UnitInfo u n i) = \<lparr>Kind = ''unit'', ModelUUID = u, Id_e = n\<rparr>"
| "jp_EntityId (jp_OtherInfo i) = i"

record jujuparams_Delta =
  jp_Removed :: bool
  jp_Entity :: jujuparams_EntityInfo

text \<open>Modelled from the spec: \<^verbatim>\<open>Model.FromJujuModelUpdate\<close> of package \<^verbatim>\<open>dbmodel\<close> is not among
  the sources; it copies the columns of the update into the row, the life among them.\<close>

definition FromJujuModelUpdate :: "dbmodel_Model \<Rightarrow> string \<Rightarrow> string \<Rightarrow> dbmodel_Model" where
  "FromJujuModelUpdate m lf i = m\<lparr>Life := lf, m_Info := i\<rparr>"

text \<open>Modelled from the spec: \<^verbatim>\<open>FromJujuApplicationInfo\<close>, \<^verbatim>\<open>FromJujuMachineInfo\<close> and
  \<^verbatim>\<open>FromJujuUnitInfo\<close> of package \<^verbatim>\<open>dbmodel\<close> are not among the sources; each copies the
  columns of the delta into the row.\<close>

definition FromJujuInfo :: "entity_row \<Rightarrow> string \<Rightarrow> entity_row" where
  "FromJujuInfo a i = a\<lparr>row_Info := i\<rparr>"

text \<open>
  The closure \<^verbatim>\<open>modelIDf\<close> of \<^verbatim>\<open>watchController\<close>: the key of the model with the given UUID,
  from the map \<open>modelIDs\<close> or else from the store; 0 for a model the store does not hold.
\<close>

definition modelIDf ::
  "Database \<Rightarrow> dbmodel_Controller \<Rightarrow> (string \<rightharpoonup> nat) \<Rightarrow> string \<Rightarrow> nat \<times> (string \<rightharpoonup> nat)" where
  "modelIDf db ctl ids u =
     (case ids u of
        Some modelID \<Rightarrow> (modelID, ids)
      | None \<Rightarrow>
          (case GetModel db (new_Model\<lparr>UUID := Some u, ControllerID := ctl_ID ctl\<rparr>) of
             Inr m \<Rightarrow> (ID m, ids(u \<mapsto> ID m))
           | Inl err \<Rightarrow> if Cause err = ErrNotFound then (0, ids(u \<mapsto> 0)) else (0, ids)))"

text \<open>\<^verbatim>\<open>deleteModel\<close> and \<^verbatim>\<open>updateModel\<close>.\<close>

definition deleteModel :: "Database \<Rightarrow> dbmodel_Model \<Rightarrow> error option \<times> Database" where
  "deleteModel db m =
     (case Transaction db (\<lambda>db.
             case GetModel db m of
               Inl err \<Rightarrow>
                 if Cause err \<noteq> ErrNotFound then (Some err, db)
                 else if Life m \<noteq> ''dying'' then (None, db) else DeleteModel db m
             | Inr m' \<Rightarrow> if Life m' \<noteq> ''dying'' then (None, db) else DeleteModel db m') of
        (Some err, db') \<Rightarrow> (Some (E ''watcher.deleteModel'' err), db')
      | (None, db') \<Rightarrow> (None, db'))"

definition updateModel ::
  "Database \<Rightarrow> dbmodel_Model \<Rightarrow> string \<Rightarrow> string \<Rightarrow> error option \<times> Database" where
  "updateModel db m lf i =
     (case Transaction db (\<lambda>db.
             case GetModel db m of
               Inl err \<Rightarrow>
                 if Cause err \<noteq> ErrNotFound then (Some err, db)
                 else UpdateModel db (FromJujuModelUpdate m lf i)
             | Inr m' \<Rightarrow> UpdateModel db (FromJujuModelUpdate m' lf i)) of
        (Some err, db') \<Rightarrow> (Some (E ''watcher.updateModel'' err), db')
      | (None, db') \<Rightarrow> (None, db'))"

text \<open>Modelled from the spec: the methods of \<^verbatim>\<open>db.Database\<close> on the tables of applications,
  machines and units are not among the sources. A row is found by its model and name;
  \<open>get_row\<close> is the lookup they share, reporting \<^verbatim>\<open>CodeNotFound\<close> if there is no such row.\<close>

definition get_row :: "entity_row list \<Rightarrow> entity_row \<Rightarrow> error + entity_row" where
  "get_row rows a =
     (case find (same_row a) rows of None \<Rightarrow> Inl (Errgo ErrNotFound ''not found'') | Some b \<Rightarrow> Inr b)"

text \<open>Modelled from the spec: \<^verbatim>\<open>Database.GetApplication\<close>, which is not among the sources.\<close>

definition GetApplication :: "Database \<Rightarrow> entity_row \<Rightarrow> error + entity_row" where
  "GetApplication db a = get_row (Applications db) a"

text \<open>Modelled from the spec: \<^verbatim>\<open>Database.UpdateApplication\<close>, which is not among the sources;
  it replaces the row or adds it.\<close>

definition UpdateApplication :: "Database \<Rightarrow> entity_row \<Rightarrow> error option \<times> Database" where
  "UpdateApplication db a = (None, db\<lparr>Applications := update_row (Applications db) a\<rparr>)"

text \<open>Modelled from the spec: \<^verbatim>\<open>Database.DeleteApplication\<close>, which is not among the sources.\<close>

definition DeleteApplication :: "Database \<Rightarrow> entity_row \<Rightarrow> error option \<times> Database" where
  "DeleteApplication db a = (None, db\<lparr>Applications := delete_row (Applications db) a\<rparr>)"

text \<open>Modelled from the spec: \<^verbatim>\<open>Database.GetMachine\<close>, which is not among the sources.\<close>

definition GetMachine :: "Database \<Rightarrow> entity_row \<Rightarrow> error + entity_row" where
  "GetMachine db a = get_row (Machines db) a"

text \<open>Modelled from the spec: \<^verbatim>\<open>Database.UpdateMachine\<close>, which is not among the sources.\<close>

definition UpdateMachine :: "Database \<Rightarrow> entity_row \<Rightarrow> error option \<times> Database" where
  "UpdateMachine db a = (None, db\<lparr>Machines := update_row (Machines db) a\<rparr>)"

text \<open>Modelled from the spec: \<^verbatim>\<open>Database.DeleteMachine\<close>, which is not among the sources.\<close>

definition DeleteMachine :: "Database \<Rightarrow> entity_row \<Rightarrow> error option \<times> Database" where
  "DeleteMachine db a = (None, db\<lparr>Machines := delete_row (Machines db) a\<rparr>)"

text \<open>Modelled from the spec: \<^verbatim>\<open>Database.GetUnit\<close>, which is not among the sources.\<close>

definition GetUnit :: "Database \<Rightarrow> entity_row \<Rightarrow> error + entity_row" where
  "GetUnit db a = get_row (Units db) a"

text \<open>Modelled from the spec: \<^verbatim>\<open>Database.UpdateUnit\<close>, which is not among the sources.\<close>

definition UpdateUnit :: "Database \<Rightarrow> entity_row \<Rightarrow> error option \<times> Database" where
  "UpdateUnit db a = (None, db\<lparr>Units := update_row (Units db) a\<rparr>)"

text \<open>Modelled from the spec: \<^verbatim>\<open>Database.DeleteUnit\<close>, which is not among the sources.\<close>

definition DeleteUnit :: "Database \<Rightarrow> entity_row \<Rightarrow> error option \<times> Database" where
  "DeleteUnit db a = (None, db\<lparr>Units := delete_row (Units db) a\<rparr>)"

text \<open>\<^verbatim>\<open>updateApplication\<close>, \<^verbatim>\<open>updateMachine\<close> and \<^verbatim>\<open>updateUnit\<close>.\<close>

definition updateApplication :: "Database \<Rightarrow> entity_row \<Rightarrow> string \<Rightarrow> error option \<times> Database" where
  "updateApplication db app i =
     (case Transaction db (\<lambda>db.
             case GetApplication db app of
               Inl err \<Rightarrow>
                 if Cause err \<noteq> ErrNotFound then (Some err, db)
                 else UpdateApplication db (FromJujuInfo app i)
             | Inr app' \<Rightarrow> UpdateApplication db (FromJujuInfo app' i)) of
        (Some err, db') \<Rightarrow> (Some (E ''watcher.updateApplication'' err), db')
      | (None, db') \<Rightarrow> (None, db'))"

definition updateMachine :: "Database \<Rightarrow> entity_row \<Rightarrow> string \<Rightarrow> error option \<times> Database" where
  "updateMachine db machine i =
     (case Transaction db (\<lambda>db.
             case GetMachine db machine of
               Inl err \<Rightarrow>
                 if Cause err \<noteq> ErrNotFound then (Some err, db)
                 else UpdateMachine db (FromJujuInfo machine i)
             | Inr machine' \<Rightarrow> UpdateMachine db (FromJujuInfo machine' i)) of
        (Some err, db') \<Rightarrow> (Some (E ''watcher.updateMachine'' err), db')
      | (None, db') \<Rightarrow> (None, db'))"

definition updateUnit :: "Database \<Rightarrow> entity_row \<Rightarrow> string \<Rightarrow> error option \<times> Database" where
  "updateUnit db unit i =
     (case Transaction db (\<lambda>db.
             case GetUnit db unit of
               Inl err \<Rightarrow>
                 if Cause err \<noteq> ErrNotFound then (Some err, db)
                 else UpdateUnit db (FromJujuInfo unit i)
             | Inr unit' \<Rightarrow> UpdateUnit db (FromJujuInfo unit' i)) of
        (Some err, db') \<Rightarrow> (Some (E ''watcher.updateUnit'' err), db')
      | (None, db') \<Rightarrow> (None, db'))"

text \<open>\<^verbatim>\<open>handleDelta\<close>: the error, the store and the map of model keys after the delta.\<close>

definition handleDelta ::
  "dbmodel_Controller \<Rightarrow> Database \<Rightarrow> (string \<rightharpoonup> nat) \<Rightarrow> jujuparams_Delta
     \<Rightarrow> error option \<times> Database \<times> (string \<rightharpoonup> nat)" where
  "handleDelta ctl db ids d =
     (case modelIDf db ctl ids (ModelUUID (jp_EntityId (jp_Entity d))) of
        (modelID, ids') \<Rightarrow>
          if modelID = 0 then (None, db, ids')
          else (case jp_Entity d of
                  jp_ApplicationInfo u n i \<Rightarrow>
                    (case (if jp_Removed d
                           then DeleteApplication db \<lparr>ModelID = modelID, row_Name = n, row_Info = []\<rparr>
                           else updateApplication db \<lparr>ModelID = modelID, row_Name = n, row_Info = []\<rparr> i) of
                       (err, db') \<Rightarrow> (err, db', ids'))
                | jp_MachineInfo u n i \<Rightarrow>
                    (case (if jp_Removed d
                           then DeleteMachine db \<lparr>ModelID = modelID, row_Name = n, row_Info = []\<rparr>
                           else updateMachine db \<lparr>ModelID = modelID, row_Name = n, row_Info = []\<rparr> i) of
                       (err, db') \<Rightarrow> (err, db', ids'))
                | jp_ModelUpdate u lf i \<Rightarrow>
                    (case (if jp_Removed d
                           then deleteModel db (new_Model\<lparr>ID := modelID\<rparr>)
                           else updateModel db (new_Model\<lparr>ID := modelID\<rparr>) lf i) of
                       (err, db') \<Rightarrow> (err, db', ids'))
                | jp_UnitInfo u n i \<Rightarrow>
                    (case (if jp_Removed d
                           then DeleteUnit db \<lparr>ModelID = modelID, row_Name = n, row_Info = []\<rparr>
                           else updateUnit db \<lparr>ModelID = modelID, row_Name = n, row_Info = []\<rparr> i) of
                       (err, db') \<Rightarrow> (err, db', ids'))
                | jp_OtherInfo e \<Rightarrow> (None, db, ids')))"

text \<open>A store with a controller and three of its models, used to evaluate the watcher.\<close>

definition example_controller :: dbmodel_Controller where
  "example_controller = \<lparr>ctl_ID = 1, ctl_Name = ''ctl''\<rparr>"

definition model_a :: dbmodel_Model where
  "model_a = \<lparr>ID = 1, UUID = Some ''uuid-a'', ControllerID = 1, Life = ''dying'', m_Info = []\<rparr>"

definition model_b :: dbmodel_Model where
  "model_b = \<lparr>ID = 2, UUID = Some ''uuid-b'', ControllerID = 1, Life = ''dying'', m_Info = []\<rparr>"

definition model_c :: dbmodel_Model where
  "model_c = \<lparr>ID = 3, UUID = Some ''uuid-c'', ControllerID = 1, Life = ''alive'', m_Info = []\<rparr>"

definition example_db :: Database where
  "example_db = \<lparr>Models = [model_a, model_b, model_c], Applications = [], Machines = [], Units = []\<rparr>"

text \<open>Two controllers: on the first the dying models are gone; the second fails the
  request for the first model and reports the second one gone.\<close>

definition models_gone :: "string \<Rightarrow> error option" where
  "models_gone u = Some (Errgo ErrNotFound ''model not found'')"


text \<open>The store holds a model with the given key.\<close>

definition has_model :: "Database \<Rightarrow> nat \<Rightarrow> bool" where
  "has_model db i = (\<exists>r \<in> set (Models db). ID r = i)"

subsection \<open>Auxiliary notions for the watcher\<close>

text \<open>A model with a UUID whose life is "dying", and one the controller reports as not found.\<close>

definition dying_valid :: "dbmodel_Model \<Rightarrow> bool" where
  "dying_valid m = (UUID m \<noteq> None \<and> Life m = ''dying'')"

definition gone :: "(string \<Rightarrow> error option) \<Rightarrow> dbmodel_Model \<Rightarrow> bool" where
  "gone api m = (dying_valid m \<and> is_not_found (api (UUID_String m)))"

text \<open>The function \<^verbatim>\<open>checkControllerModels\<close> applies to each model when its only check is \<^verbatim>\<open>checkDyingModel\<close>.\<close>

definition check_step ::
  "(string \<Rightarrow> error option) \<Rightarrow> check_state \<Rightarrow> dbmodel_Model \<Rightarrow> error option \<times> check_state" where
  "check_step api = check_model [checkDyingModel api]"

text \<open>The key \<^verbatim>\<open>handleDelta\<close> obtains from \<^verbatim>\<open>modelIDf\<close> for the model of a delta.\<close>

definition delta_modelID :: "dbmodel_Controller \<Rightarrow> Database \<Rightarrow> (string \<rightharpoonup> nat) \<Rightarrow> jujuparams_Delta \<Rightarrow> nat" where
  "delta_modelID ctl db ids d = fst (modelIDf db ctl ids (ModelUUID (jp_EntityId (jp_Entity d))))"

section \<open>The orchestrator (package jem)\<close>

text \<open>
  Of the orchestrator, the sources hold the tests (\<^verbatim>\<open>jem_test.go\<close>) and the callers in the API
  gateway, not the functions. This section models the functions the claims are about from
  the specification, and takes from the tests what they assert about them.
\<close>

record ACL =
  acl_Read :: "string list"
  acl_Write :: "string list"
  acl_Admin :: "string list"

record CredentialPath =
  cp_Cloud :: string
  cp_User :: string
  cp_Name :: string

text \<open>The zero credential path: no credential.\<close>

definition no_credential :: CredentialPath where
  "no_credential = \<lparr>cp_Cloud = [], cp_User = [], cp_Name = []\<rparr>"

definition credential_text :: "CredentialPath \<Rightarrow> string" where
  "credential_text cp = cp_Cloud cp @ ''/'' @ cp_User cp @ ''/'' @ cp_Name cp"

record mongodoc_Credential =
  cred_Path :: CredentialPath
  cred_Type :: string
  cred_Controllers :: "EntityPath list"

text \<open>\<^verbatim>\<open>mongodoc.Model\<close> and \<^verbatim>\<open>mongodoc.Controller\<close> with the further fields the orchestrator
  writes and its tests read.\<close>

record model_doc = mongodoc_Model +
  m_Cloud :: string
  m_CloudRegion :: string
  m_Credential :: CredentialPath
  m_Creator :: string
  m_CreationTime :: time
  m_DefaultSeries :: string
  m_Life :: string
  m_ACL :: ACL

record controller_doc = mongodoc_Controller +
  c_Path :: EntityPath
  c_Location_cloud :: string
  c_Location_region :: string
  c_Public :: bool
  c_ACL :: ACL

record jem_store =
  db_Models :: "model_doc list"
  db_Credentials :: "mongodoc_Credential list"
  db_Controllers :: "controller_doc list"

record CreateModelParams =
  p_Path :: EntityPath
  p_ControllerPath :: EntityPath
  p_Credential :: CredentialPath
  p_Cloud :: string
  p_Region :: string

definition no_path :: EntityPath where
  "no_path = \<lparr>User = [], Name = []\<rparr>"

text \<open>
  The collaborators of the orchestrator: the identity service (is the caller a member of
  a group), the name of the administrators' group, the injected random choice and clock,
  and the downstream controller's API: creating a model answers with the new model's UUID,
  region and default series; granting, revoking and destroying answer with an error or
  nothing.
\<close>

record jem_env =
  member_of :: "string \<Rightarrow> string \<Rightarrow> bool"
  ControllerAdmin :: string
  RandIntn :: "nat \<Rightarrow> nat"
  WallClock :: time
  api_CreateModel :: "EntityPath \<Rightarrow> CreateModelParams \<Rightarrow> CredentialPath \<Rightarrow> error + (string \<times> string \<times> string)"
  api_GrantModel :: "string \<Rightarrow> string \<Rightarrow> string \<Rightarrow> error option"
  api_RevokeModel :: "string \<Rightarrow> string \<Rightarrow> string \<Rightarrow> error option"
  api_DestroyModel :: "string \<Rightarrow> error option"

subsection \<open>CreateModel\<close>

text \<open>
  \<^verbatim>\<open>JEM.CreateModel\<close> is not among the sources. Its steps are those of the specification:
  (1) the caller must be the owner of the path or an administrator; (2) without a
  credential path the caller's credentials for the cloud are enumerated: exactly one is
  used, more than one fails with \<^verbatim>\<open>ErrAmbiguousChoice\<close>, none proceeds with no credential;
  (3) a specified credential that is absent fails with \<^verbatim>\<open>ErrNotFound\<close>; (4) without a
  controller path a controller is chosen at random among those the caller may read at the
  cloud and region; (7) a model already at the path fails with \<^verbatim>\<open>ErrAlreadyExists\<close> before
  the controller is touched; (5) the credential is recorded as uploaded to the controller;
  (6) the model is created on the controller and its row persisted with life "alive", the
  caller as creator and the clock's time. The error texts are those the tests expect.
\<close>

text \<open>Modelled from the spec: the enumeration of the caller's credentials for a cloud, part
  of \<^verbatim>\<open>JEM.CreateModel\<close>, which is not among the sources.\<close>

definition caller_credentials :: "jem_store \<Rightarrow> string \<Rightarrow> string \<Rightarrow> mongodoc_Credential list" where
  "caller_credentials st caller cloud =
     filter (\<lambda>c. cp_User (cred_Path c) = caller \<and> cp_Cloud (cred_Path c) = cloud) (db_Credentials st)"

text \<open>Modelled from the spec: steps (2) and (3) of \<^verbatim>\<open>JEM.CreateModel\<close>, which is not among the
  sources: the credential the model is created with.\<close>

definition choose_credential :: "jem_store \<Rightarrow> string \<Rightarrow> CreateModelParams \<Rightarrow> error + CredentialPath" where
  "choose_credential st caller p =
     (if p_Credential p = no_credential
      then (case caller_credentials st caller (p_Cloud p) of
              [] \<Rightarrow> Inr no_credential
            | [c] \<Rightarrow> Inr (cred_Path c)
            | c # c' # cs \<Rightarrow> Inl (Errgo ErrAmbiguousChoice ''more than one possible credential to use''))
      else if \<exists>c \<in> set (db_Credentials st). cred_Path c = p_Credential p
      then Inr (p_Credential p)
      else Inl (Errgo ErrNotFound
                  (''credential '' @ quoted (credential_text (p_Credential p)) @ '' not found'')))"

text \<open>Modelled from the spec: the controllers a caller may read, as \<^verbatim>\<open>SelectController\<close>, which
  is not among the sources, enumerates them: public ones, the caller's own, and those whose
  ACL names the caller or a group of the caller.\<close>

definition may_read :: "jem_env \<Rightarrow> string \<Rightarrow> controller_doc \<Rightarrow> bool" where
  "may_read env caller c =
     (c_Public c \<or> User (c_Path c) = caller
      \<or> (\<exists>g \<in> set (acl_Read (c_ACL c) @ acl_Write (c_ACL c) @ acl_Admin (c_ACL c)).
            g = caller \<or> member_of env caller g))"

text \<open>Modelled from the spec: \<^verbatim>\<open>JEM.SelectController\<close>, which is not among the sources: a random
  choice among the readable controllers at the cloud and, if given, the region;
  \<^verbatim>\<open>ErrNotFound\<close> if there is none.\<close>

definition SelectController ::
  "jem_env \<Rightarrow> jem_store \<Rightarrow> string \<Rightarrow> string \<Rightarrow> string \<Rightarrow> error + EntityPath" where
  "SelectController env st caller cloud region =
     (case filter (\<lambda>c. may_read env caller c \<and> c_Location_cloud c = cloud
                        \<and> (region = [] \<or> c_Location_region c = region)) (db_Controllers st) of
        [] \<Rightarrow> Inl (Errgo ErrNotFound ''no matching controllers found'')
      | c # cs \<Rightarrow> Inr (c_Path ((c # cs) ! (RandIntn env (length (c # cs)) mod length (c # cs)))))"

text \<open>Modelled from the spec: step (5) of \<^verbatim>\<open>JEM.CreateModel\<close>, which is not among the sources:
  the controller is recorded among those that hold the credential.\<close>

definition record_upload :: "EntityPath \<Rightarrow> CredentialPath \<Rightarrow> mongodoc_Credential \<Rightarrow> mongodoc_Credential" where
  "record_upload ctl cp c =
     (if cred_Path c = cp \<and> ctl \<notin> set (cred_Controllers c)
      then c\<lparr>cred_Controllers := cred_Controllers c @ [ctl]\<rparr> else c)"

text \<open>Modelled from the spec: steps (4) to (7) of \<^verbatim>\<open>JEM.CreateModel\<close>, which is not among the
  sources, with the credential chosen.\<close>

definition create_with_credential ::
  "jem_env \<Rightarrow> jem_store \<Rightarrow> string \<Rightarrow> CreateModelParams \<Rightarrow> CredentialPath
     \<Rightarrow> (error + model_doc) \<times> jem_store" where
  "create_with_credential env st caller p cred =
     (case (if p_ControllerPath p = no_path
            then SelectController env st caller (p_Cloud p) (p_Region p)
            else Inr (p_ControllerPath p)) of
        Inl err \<Rightarrow> (Inl (Notef err ''cannot select controller''), st)
      | Inr ctl \<Rightarrow>
          if \<exists>m \<in> set (db_Models st). m_Path m = p_Path p
          then (Inl (Errgo ErrAlreadyExists ''already exists''), st)
          else (let st1 = st\<lparr>db_Credentials := map (record_upload ctl cred) (db_Credentials st)\<rparr>
                in case api_CreateModel env ctl p cred of
                     Inl err \<Rightarrow> (Inl (Mask err no_pass), st1)
                   | Inr (new_uuid, region, series) \<Rightarrow>
                       (let m = \<lparr>m_Id = ctlPath_text (p_Path p), m_UUID = new_uuid,
                                 m_Path = p_Path p, m_Controller = ctl,
                                 m_Cloud = p_Cloud p, m_CloudRegion = region,
                                 m_Credential = cred, m_Creator = caller,
                                 m_CreationTime = WallClock env, m_DefaultSeries = series,
                                 m_Life = ''alive'',
                                 m_ACL = \<lparr>acl_Read = [], acl_Write = [], acl_Admin = []\<rparr>\<rparr>
                        in (Inr m, st1\<lparr>db_Models := db_Models st1 @ [m]\<rparr>))))"

text \<open>Modelled from the spec: \<^verbatim>\<open>JEM.CreateModel\<close>, which is not among the sources: step (1),
  the choice of the credential, and the creation with it.\<close>

definition CreateModel ::
  "jem_env \<Rightarrow> jem_store \<Rightarrow> string \<Rightarrow> CreateModelParams \<Rightarrow> (error + model_doc) \<times> jem_store" where
  "CreateModel env st caller p =
     (if caller \<noteq> User (p_Path p) \<and> \<not> member_of env caller (ControllerAdmin env)
      then (Inl params_ErrUnauthorized, st)
      else case choose_credential st caller p of
             Inl err \<Rightarrow> (Inl err, st)
           | Inr cred \<Rightarrow> create_with_credential env st caller p cred)"

subsection \<open>GrantModel, RevokeModel and DestroyModel\<close>

text \<open>Modelled from the spec: the store's update and lookup of a model's ACL, which are not
  among the sources.\<close>

definition set_ACL :: "jem_store \<Rightarrow> EntityPath \<Rightarrow> (ACL \<Rightarrow> ACL) \<Rightarrow> jem_store" where
  "set_ACL st path f =
     st\<lparr>db_Models := map (\<lambda>m. if m_Path m = path then m\<lparr>m_ACL := f (m_ACL m)\<rparr> else m) (db_Models st)\<rparr>"

definition model_ACL :: "jem_store \<Rightarrow> EntityPath \<Rightarrow> ACL option" where
  "model_ACL st path = map_option m_ACL (find (\<lambda>m. m_Path m = path) (db_Models st))"

text \<open>Modelled from the spec: \<^verbatim>\<open>JEM.GrantModel\<close> is not among the sources. The grant is pushed to
  the controller first and the local ACL is updated only if the controller accepts it; an
  error of the controller is returned with its text. As \<^verbatim>\<open>TestGrantModel\<close> expects, a grant
  of any access level adds the user to the readers.
\<close>

definition GrantModel_jem ::
  "jem_env \<Rightarrow> jem_store \<Rightarrow> model_doc \<Rightarrow> string \<Rightarrow> string \<Rightarrow> error option \<times> jem_store" where
  "GrantModel_jem env st m user access =
     (case api_GrantModel env (m_UUID m) user access of
        Some err \<Rightarrow> (Some (Mask err no_pass), st)
      | None \<Rightarrow>
          (None, set_ACL st (m_Path m)
                   (\<lambda>a. if user \<in> set (acl_Read a) then a else a\<lparr>acl_Read := acl_Read a @ [user]\<rparr>)))"

text \<open>Modelled from the spec: \<^verbatim>\<open>JEM.RevokeModel\<close> is not among the sources. An error of the
  controller is returned with its text. The order of its two steps is the one
  \<^verbatim>\<open>TestRevokeModelControllerFailure\<close> asserts: after a revoke that the controller rejects,
  the user is no longer among the model's readers, so the local ACL is updated before the
  revoke is pushed to the controller. As a grant adds the user to the readers, a revoke
  removes the user from them.
\<close>

definition RevokeModel_jem ::
  "jem_env \<Rightarrow> jem_store \<Rightarrow> model_doc \<Rightarrow> string \<Rightarrow> string \<Rightarrow> error option \<times> jem_store" where
  "RevokeModel_jem env st m user access =
     (let st1 = set_ACL st (m_Path m)
                  (\<lambda>a. a\<lparr>acl_Read := removeAll user (acl_Read a)\<rparr>)
      in case api_RevokeModel env (m_UUID m) user access of
           Some err \<Rightarrow> (Some (Mask err no_pass), st1)
         | None \<Rightarrow> (None, st1))"



subsection \<open>The fixtures of the tests\<close>

text \<open>
  The controller of the test suite: it creates models in the region "dummy-region" with
  the series "xenial", accepts the access levels read, write and admin, rejects any other
  with the text \<^verbatim>\<open>"<access>" model access not valid\<close>, and reports a model it does not
  have (here: any model once destroyed) as not found.
\<close>

definition valid_access :: "string \<Rightarrow> bool" where
  "valid_access a = (a = ''read'' \<or> a = ''write'' \<or> a = ''admin'')"

definition modify_access :: "string \<Rightarrow> string \<Rightarrow> string \<Rightarrow> error option" where
  "modify_access u user access =
     (if valid_access access then None
      else Some (ParamsError (quoted access @ '' model access not valid'') []))"

definition test_env :: jem_env where
  "test_env =
     \<lparr>member_of = (\<lambda>caller g. g = ''everyone''),
      ControllerAdmin = ''controller-admin'',
      RandIntn = (\<lambda>n. 0),
      WallClock = 1500000000000000000,
      api_CreateModel = (\<lambda>ctl p cred. Inr (''00000000-0000-0000-0000-000000000001'', ''dummy-region'', ''xenial'')),
      api_GrantModel = modify_access,
      api_RevokeModel = modify_access,
      api_DestroyModel = (\<lambda>u. None)\<rparr>"

text \<open>The store of \<^verbatim>\<open>TestCreateModel\<close>: the controller bob/controller, one credential of bob,
  two of alice, none of charlie, and the model bob/oldmodel.\<close>

definition credentialPath :: "string \<Rightarrow> string \<Rightarrow> string \<Rightarrow> CredentialPath" where
  "credentialPath cloud user name = \<lparr>cp_Cloud = cloud, cp_User = user, cp_Name = name\<rparr>"

definition test_controller :: controller_doc where
  "test_controller =
     \<lparr>c_Id = ''bob/controller'', c_UUID = ''deadbeef-0bad-400d-8000-4b1d0d06f00d'',
      c_Path = \<lparr>User = ''bob'', Name = ''controller''\<rparr>,
      c_Location_cloud = ''dummy'', c_Location_region = ''dummy-region'', c_Public = True,
      c_ACL = \<lparr>acl_Read = [''everyone''], acl_Write = [], acl_Admin = []\<rparr>\<rparr>"

definition test_model :: "string \<Rightarrow> string \<Rightarrow> string \<Rightarrow> model_doc" where
  "test_model owner name credname =
     \<lparr>m_Id = owner @ ''/'' @ name, m_UUID = ''00000000-0000-0000-0000-000000000001'',
      m_Path = \<lparr>User = owner, Name = name\<rparr>, m_Controller = \<lparr>User = owner, Name = ''controller''\<rparr>,
      m_Cloud = ''dummy'', m_CloudRegion = ''dummy-region'',
      m_Credential = credentialPath ''dummy'' ''bob'' credname, m_Creator = owner,
      m_CreationTime = 1500000000000000000, m_DefaultSeries = ''xenial'', m_Life = ''alive'',
      m_ACL = \<lparr>acl_Read = [], acl_Write = [], acl_Admin = []\<rparr>\<rparr>"

definition create_store :: jem_store where
  "create_store =
     \<lparr>db_Models = [test_model ''bob'' ''oldmodel'' ''cred1''],
      db_Credentials =
        [\<lparr>cred_Path = credentialPath ''dummy'' ''bob'' ''cred1'', cred_Type = ''empty'',
          cred_Controllers = [\<lparr>User = ''bob'', Name = ''controller''\<rparr>]\<rparr>,
         \<lparr>cred_Path = credentialPath ''dummy'' ''alice'' ''cred1'', cred_Type = ''empty'', cred_Controllers = []\<rparr>,
         \<lparr>cred_Path = credentialPath ''dummy'' ''alice'' ''cred2'', cred_Type = ''empty'', cred_Controllers = []\<rparr>],
      db_Controllers = [test_controller]\<rparr>"

definition create_params :: "string \<Rightarrow> string \<Rightarrow> CreateModelParams" where
  "create_params owner name =
     \<lparr>p_Path = \<lparr>User = owner, Name = name\<rparr>, p_ControllerPath = no_path,
      p_Credential = no_credential, p_Cloud = ''dummy'', p_Region = []\<rparr>"

text \<open>The store after \<^verbatim>\<open>bootstrapModel\<close> of the model bob/model, as the grant, revoke and
  destroy tests begin.\<close>

definition bootstrap_store :: jem_store where
  "bootstrap_store =
     \<lparr>db_Models = [test_model ''bob'' ''model'' ''cred''],
      db_Credentials =
        [\<lparr>cred_Path = credentialPath ''dummy'' ''bob'' ''cred'', cred_Type = ''empty'',
          cred_Controllers = [\<lparr>User = ''bob'', Name = ''controller''\<rparr>]\<rparr>],
      db_Controllers = [test_controller]\<rparr>"

text \<open>The stores of the tests after the grant of write access to alice, and after the first
  destroy.\<close>

definition granted_store :: jem_store where
  "granted_store =
     snd (GrantModel_jem test_env bootstrap_store (test_model ''bob'' ''model'' ''cred'') ''alice'' ''write'')"





section \<open>Properties of the delta reducer\<close>

lemma live_Nil: "live [] i = False"
  by (simp add: live_def)

lemma live_snoc: "live (ds @ [d]) i = (adds d i \<or> (live ds i \<and> \<not> removes d i))"
proof
  assume "live (ds @ [d]) i"
  then obtain n where n: "n < Suc (length ds)" "adds ((ds @ [d]) ! n) i"
    "\<forall>m. n < m \<and> m < Suc (length ds) \<longrightarrow> \<not> removes ((ds @ [d]) ! m) i"
    by (auto simp: live_def)
  show "adds d i \<or> (live ds i \<and> \<not> removes d i)"
  proof (cases "n = length ds")
    case True
    with n(2) show ?thesis by simp
  next
    case False
    with n(1) have lt: "n < length ds" by simp
    from n(3) lt have "\<not> removes ((ds @ [d]) ! length ds) i" by blast
    then have nr: "\<not> removes d i" by simp
    have "\<forall>m. n < m \<and> m < length ds \<longrightarrow> \<not> removes (ds ! m) i"
    proof (intro allI impI)
      fix m assume m: "n < m \<and> m < length ds"
      then have "\<not> removes ((ds @ [d]) ! m) i" using n(3) by simp
      with m show "\<not> removes (ds ! m) i" by (simp add: nth_append)
    qed
    moreover from n(2) lt have "adds (ds ! n) i" by (simp add: nth_append)
    ultimately have "live ds i" using lt unfolding live_def by blast
    with nr show ?thesis by simp
  qed
next
  assume r: "adds d i \<or> (live ds i \<and> \<not> removes d i)"
  show "live (ds @ [d]) i"
  proof (cases "adds d i")
    case True
    then have "adds ((ds @ [d]) ! length ds) i" by simp
    then show ?thesis unfolding live_def
      by (intro exI[of _ "length ds"]) auto
  next
    case False
    with r have l: "live ds i" and nr: "\<not> removes d i" by auto
    from l obtain n where n: "n < length ds" "adds (ds ! n) i"
      "\<forall>m. n < m \<and> m < length ds \<longrightarrow> \<not> removes (ds ! m) i"
      by (auto simp: live_def)
    have "\<forall>m. n < m \<and> m < length (ds @ [d]) \<longrightarrow> \<not> removes ((ds @ [d]) ! m) i"
    proof (intro allI impI)
      fix m assume m: "n < m \<and> m < length (ds @ [d])"
      show "\<not> removes ((ds @ [d]) ! m) i"
      proof (cases "m = length ds")
        case True then show ?thesis using nr by simp
      next
        case False
        with m have "m < length ds" by simp
        with n(3) m show ?thesis by (simp add: nth_append)
      qed
    qed
    moreover have "adds ((ds @ [d]) ! n) i" using n by (simp add: nth_append)
    moreover have "n < length (ds @ [d])" using n(1) by simp
    ultimately show ?thesis unfolding live_def by blast
  qed
qed

lemma set_live_ids: "set (live_ids k ds) = {i. live ds i \<and> Kind i = k}"
  unfolding live_ids_def live_def
  by (auto simp: adds_def)

lemma length_live_ids: "length (live_ids k ds) = card {i. live ds i \<and> Kind i = k}"
  using set_live_ids[of k ds] distinct_card[of "live_ids k ds"]
  by (simp add: live_ids_def)

lemma with_modelInfo_fields:
  "entities (with_modelInfo w u f) = entities w"
  "stats (with_modelInfo w u f) = stats w"
  "changed_w (with_modelInfo w u f) = changed_w w"
  "runner (with_modelInfo w u f) = runner w"
  "ctlPath (with_modelInfo w u f) = ctlPath w"
  by (simp_all add: with_modelInfo_def modelInfo_w_def split: option.splits)

lemma known_with_modelInfo: "known (with_modelInfo w u f) = known w"
  by (rule ext) (simp add: known_def with_modelInfo_fields)

lemma fst_adjustCount: "fst (adjustCount w upd d) = diff_of w d"
  by (simp add: adjustCount_def diff_of_def Let_def)

lemma known_adjustCount:
  "known (snd (adjustCount w upd d)) = (known w)(entityId (Entity d) := \<not> Removed d)"
  by (rule ext) (auto simp: adjustCount_def known_def Let_def split: option.splits)

lemma stats_adjustCount:
  "stats (snd (adjustCount w upd d)) = (if diff_of w d \<noteq> 0 then upd (diff_of w d) (stats w) else stats w)"
  by (simp add: adjustCount_def diff_of_def Let_def)

lemma addDelta_alt:
  "addDelta w d =
     (case Entity d of
        ModelInfo u lf \<Rightarrow>
          with_modelInfo (snd (adjustCount w add_ModelCount d)) u
            (\<lambda>info. setLife info (if \<not> Removed d then lf else ''dead''))
      | UnitInfo u name \<Rightarrow>
          with_modelInfo (snd (adjustCount w add_UnitCount d)) u
            (\<lambda>info. adjustCount_info info params_UnitCount (diff_of w d))
      | ApplicationInfo u name \<Rightarrow>
          with_modelInfo (snd (adjustCount w add_ServiceCount d)) u
            (\<lambda>info. adjustCount_info info params_ApplicationCount (diff_of w d))
      | MachineInfo u mid \<Rightarrow>
          (with_modelInfo (snd (adjustCount w add_MachineCount d)) u
            (\<lambda>info. adjustCount_info info params_MachineCount (diff_of w d)))
          \<lparr>runner := runner (snd (adjustCount w add_MachineCount d)) @ [UpdateMachineInfo (Entity d)]\<rparr>
      | OtherInfo i \<Rightarrow> w)"
  unfolding addDelta_def
  by (simp only: case_prod_beta fst_adjustCount Let_def with_modelInfo_fields)

lemma known_upd_runner: "known (w\<lparr>runner := r\<rparr>) = known w"
  by (rule ext) (simp add: known_def)

lemma known_addDelta:
  "known (addDelta w d) = (if tracked (Entity d) then (known w)(entityId (Entity d) := \<not> Removed d) else known w)"
  by (cases "Entity d")
     (simp_all only: addDelta_alt tracked_def EntityInfo.case known_with_modelInfo known_adjustCount
        known_upd_runner if_True if_False)

lemma stats_addDelta:
  "stats (addDelta w d) =
     (if diff_of w d = 0 then stats w
      else case Entity d of
        ModelInfo u lf \<Rightarrow> add_ModelCount (diff_of w d) (stats w)
      | UnitInfo u name \<Rightarrow> add_UnitCount (diff_of w d) (stats w)
      | ApplicationInfo u name \<Rightarrow> add_ServiceCount (diff_of w d) (stats w)
      | MachineInfo u mid \<Rightarrow> add_MachineCount (diff_of w d) (stats w)
      | OtherInfo i \<Rightarrow> stats w)"
  by (cases "Entity d")
     (simp_all add: addDelta_alt with_modelInfo_fields stats_adjustCount)

lemma known_foldl: "known (foldl addDelta (newWatcherState p) ds) = live ds"
proof (induction ds rule: rev_induct)
  case Nil
  show ?case by (rule ext) (simp add: live_Nil known_def newWatcherState_def)
next
  case (snoc d ds)
  show ?case
    by (rule ext) (auto simp: known_addDelta snoc live_snoc adds_def removes_def)
qed

lemma finite_known_addDelta:
  assumes "finite {i. known w i}"
  shows "finite {i. known (addDelta w d) i}"
proof -
  have "{i. known (addDelta w d) i} \<subseteq> insert (entityId (Entity d)) {i. known w i}"
    by (auto simp: known_addDelta split: if_splits)
  then show ?thesis using assms by (meson finite_insert finite_subset)
qed

lemma cnt_insert:
  assumes "finite {i. known w i}" and "\<not> known w j" and "known w' = (known w)(j := True)"
  shows "cnt w' k = cnt w k + (if Kind j = k then 1 else 0)"
proof -
  have fin: "finite {i. known w i \<and> Kind i = k}" using assms(1) by simp
  show ?thesis
  proof (cases "Kind j = k")
    case True
    then have "{i. known w' i \<and> Kind i = k} = insert j {i. known w i \<and> Kind i = k}"
      using assms(3) by auto
    moreover have "j \<notin> {i. known w i \<and> Kind i = k}" using assms(2) by simp
    ultimately show ?thesis using fin True by (simp add: cnt_def)
  next
    case False
    then have "{i. known w' i \<and> Kind i = k} = {i. known w i \<and> Kind i = k}"
      using assms(3) by auto
    then show ?thesis using False by (simp add: cnt_def)
  qed
qed

lemma cnt_remove:
  assumes "finite {i. known w i}" and "known w j" and "known w' = (known w)(j := False)"
  shows "cnt w' k = cnt w k - (if Kind j = k then 1 else 0)"
proof -
  have fin: "finite {i. known w i \<and> Kind i = k}" using assms(1) by simp
  show ?thesis
  proof (cases "Kind j = k")
    case True
    then have "{i. known w' i \<and> Kind i = k} = {i. known w i \<and> Kind i = k} - {j}"
      using assms(3) by auto
    moreover have "j \<in> {i. known w i \<and> Kind i = k}" using assms(2) True by simp
    ultimately have "card {i. known w' i \<and> Kind i = k} = card {i. known w i \<and> Kind i = k} - 1"
      and "card {i. known w i \<and> Kind i = k} > 0"
      using fin by (auto simp: card_gt_0_iff)
    then show ?thesis using True by (simp add: cnt_def)
  next
    case False
    then have "{i. known w' i \<and> Kind i = k} = {i. known w i \<and> Kind i = k}"
      using assms(3) by auto
    then show ?thesis using False by (simp add: cnt_def)
  qed
qed

lemma cnt_same:
  assumes "known w' = known w"
  shows "cnt w' k = cnt w k"
  using assms by (simp add: cnt_def)

lemma cnt_addDelta:
  assumes "finite {i. known w i}"
  shows "cnt (addDelta w d) k =
           cnt w k + (if tracked (Entity d) \<and> Kind (entityId (Entity d)) = k then diff_of w d else 0)"
proof (cases "tracked (Entity d)")
  case False
  then have "known (addDelta w d) = known w" by (simp add: known_addDelta)
  from cnt_same[OF this, of k] False show ?thesis by simp
next
  case tr: True
  let ?j = "entityId (Entity d)"
  show ?thesis
  proof (cases "Removed d")
    case r: True
    show ?thesis
    proof (cases "known w ?j")
      case kn: True
      have "known (addDelta w d) = (known w)(?j := False)"
        using tr r by (simp add: known_addDelta)
      from cnt_remove[OF assms kn this, of k] show ?thesis
        using r kn tr by (simp add: diff_of_def)
    next
      case kn: False
      have "known (addDelta w d) = known w"
        using tr r kn by (simp add: known_addDelta fun_upd_idem_iff)
      from cnt_same[OF this, of k] show ?thesis using r kn by (simp add: diff_of_def)
    qed
  next
    case r: False
    show ?thesis
    proof (cases "known w ?j")
      case kn: False
      have "known (addDelta w d) = (known w)(?j := True)"
        using tr r by (simp add: known_addDelta)
      from cnt_insert[OF assms kn this, of k] show ?thesis
        using r kn tr by (simp add: diff_of_def)
    next
      case kn: True
      have "known (addDelta w d) = known w"
        using tr r kn by (simp add: known_addDelta fun_upd_idem_iff)
      from cnt_same[OF this, of k] show ?thesis using r kn by (simp add: diff_of_def)
    qed
  qed
qed

lemma stats_inv_addDelta:
  assumes "stats_inv w"
  shows "stats_inv (addDelta w d)"
proof -
  from assms have fin: "finite {i. known w i}" by (simp add: stats_inv_def)
  note c = cnt_addDelta[OF fin, of d]
  show ?thesis
    using assms finite_known_addDelta[OF fin, of d]
    unfolding stats_inv_def
    by (cases "Entity d")
       (simp_all add: c stats_addDelta tracked_def add_ModelCount_def add_UnitCount_def
          add_ServiceCount_def add_MachineCount_def)
qed

lemma stats_inv_new: "stats_inv (newWatcherState p)"
  by (simp add: stats_inv_def cnt_def known_def newWatcherState_def)

lemma stats_inv_foldl: "stats_inv w \<Longrightarrow> stats_inv (foldl addDelta w ds)"
  by (induction ds arbitrary: w) (simp_all add: stats_inv_addDelta)

lemma cnt_foldl: "cnt (foldl addDelta (newWatcherState p) ds) k = int (length (live_ids k ds))"
  by (simp add: cnt_def known_foldl length_live_ids)

lemma unknown_removed_noop:
  "Removed d \<Longrightarrow> \<not> known w (entityId (Entity d)) \<Longrightarrow> stats (addDelta w d) = stats w"
  by (simp add: stats_addDelta diff_of_def)

lemma known_changed_noop:
  "\<not> Removed d \<Longrightarrow> known w (entityId (Entity d)) \<Longrightarrow> stats (addDelta w d) = stats w"
  by (simp add: stats_addDelta diff_of_def)

text \<open>
  Claim C1. After the reducer has consumed any prefix of a delta stream, each counter of
  \<open>stats\<close> equals the number of distinct entity ids of its kind that have appeared in a
  non-removed delta of the prefix and have not been removed later in it. In particular a
  removed delta for an id that is not in the entity set leaves the counters unchanged, and
  so does a non-removed delta for an id that is already known.
\<close>

theorem reducer_stats_count_live_ids:
  "(let w = foldl addDelta (newWatcherState p) (take n ds)
    in ModelCount (stats w) = int (length (live_ids ''model'' (take n ds)))
     \<and> UnitCount (stats w) = int (length (live_ids ''unit'' (take n ds)))
     \<and> ServiceCount (stats w) = int (length (live_ids ''application'' (take n ds)))
     \<and> MachineCount (stats w) = int (length (live_ids ''machine'' (take n ds))))
   \<and> (Removed d \<and> \<not> known w1 (entityId (Entity d)) \<longrightarrow> stats (addDelta w1 d) = stats w1)
   \<and> (\<not> Removed d' \<and> known w2 (entityId (Entity d')) \<longrightarrow> stats (addDelta w2 d') = stats w2)"
proof -
  have "stats_inv (foldl addDelta (newWatcherState p) (take n ds))"
    by (rule stats_inv_foldl[OF stats_inv_new])
  then show ?thesis
    by (simp add: stats_inv_def cnt_foldl Let_def unknown_removed_noop known_changed_noop)
qed

lemmas reducer_eval =
  addDelta_def adjustCount_def known_def newWatcherState_def with_modelInfo_def modelInfo_w_def
  add_ModelCount_def add_UnitCount_def add_ServiceCount_def add_MachineCount_def
  setLife_def adjustCount_info_def new_modelInfo_def Let_def example_ctl_def

theorem reducer_stats_count_live_ids_witness:
  "ModelCount (stats (foldl addDelta (newWatcherState example_ctl) (take 5 example_deltas))) = 2
   \<and> length (live_ids ''model'' (take 5 example_deltas)) = 2
   \<and> UnitCount (stats (foldl addDelta (newWatcherState example_ctl) (take 5 example_deltas))) = 1
   \<and> length (live_ids ''unit'' (take 5 example_deltas)) = 1
   \<and> Removed \<lparr>Removed = True, Entity = UnitInfo ''a'' ''u/1''\<rparr>
   \<and> \<not> known (newWatcherState example_ctl)
          (entityId (Entity \<lparr>Removed = True, Entity = UnitInfo ''a'' ''u/1''\<rparr>))
   \<and> stats (addDelta (newWatcherState example_ctl) \<lparr>Removed = True, Entity = UnitInfo ''a'' ''u/1''\<rparr>)
       = stats (newWatcherState example_ctl)
   \<and> \<not> Removed \<lparr>Removed = False, Entity = ModelInfo ''a'' ''dying''\<rparr>
   \<and> known (addDelta (newWatcherState example_ctl) \<lparr>Removed = False, Entity = ModelInfo ''a'' ''alive''\<rparr>)
          (entityId (Entity \<lparr>Removed = False, Entity = ModelInfo ''a'' ''dying''\<rparr>))
   \<and> stats (addDelta (addDelta (newWatcherState example_ctl)
                \<lparr>Removed = False, Entity = ModelInfo ''a'' ''alive''\<rparr>)
              \<lparr>Removed = False, Entity = ModelInfo ''a'' ''dying''\<rparr>)
       = stats (addDelta (newWatcherState example_ctl) \<lparr>Removed = False, Entity = ModelInfo ''a'' ''alive''\<rparr>)"
  using reducer_stats_count_live_ids[of example_ctl 5 example_deltas
      "\<lparr>Removed = True, Entity = UnitInfo ''a'' ''u/1''\<rparr>" "newWatcherState example_ctl"
      "\<lparr>Removed = False, Entity = ModelInfo ''a'' ''dying''\<rparr>"
      "addDelta (newWatcherState example_ctl) \<lparr>Removed = False, Entity = ModelInfo ''a'' ''alive''\<rparr>"]
  by (simp add: example_deltas_def live_ids_def adds_def removes_def tracked_def reducer_eval)

lemma and_or_keep: "and (c::int) m \<noteq> 0 \<Longrightarrow> and (or c x) m \<noteq> 0"
  by (simp add: bit.conj_disj_distrib2 or_eq_0_iff)

lemma new_modelInfo_bits:
  "and (changed (new_modelInfo u)) lifeChange \<noteq> 0" "and (changed (new_modelInfo u)) countsChange \<noteq> 0"
  by (simp_all add: new_modelInfo_def lifeChange_def countsChange_def)

lemma setLife_bits:
  "and (changed info) m \<noteq> 0 \<Longrightarrow> and (changed (setLife info lf)) m \<noteq> 0"
  by (simp add: setLife_def and_or_keep)

lemma adjustCount_info_bits:
  "and (changed info) m \<noteq> 0 \<Longrightarrow> and (changed (adjustCount_info info k n)) m \<noteq> 0"
  by (simp add: adjustCount_info_def and_or_keep)

lemma map_of_with_modelInfo:
  "map_of (models (with_modelInfo w v f)) u =
     (if u = v then Some (f (case map_of (models w) v of None \<Rightarrow> new_modelInfo v | Some info \<Rightarrow> info))
      else map_of (models w) u)"
  by (simp add: with_modelInfo_def modelInfo_w_def update_conv' split: option.splits)

lemma both_set_with_modelInfo:
  assumes "keeps_bits f" and "map_of (models w) u = None \<and> u = v \<or> both_set w u"
  shows "both_set (with_modelInfo w v f) u"
  using assms new_modelInfo_bits
  unfolding both_set_def keeps_bits_def
  by (auto simp: map_of_with_modelInfo split: option.splits)

lemma models_adjustCount: "models (snd (adjustCount w upd d)) = models w"
  by (simp add: adjustCount_def Let_def)

lemma keeps_bits_setLife: "keeps_bits (\<lambda>info. setLife info lf)"
  by (simp add: keeps_bits_def setLife_bits)

lemma keeps_bits_adjustCount_info: "keeps_bits (\<lambda>info. adjustCount_info info k n)"
  by (simp add: keeps_bits_def adjustCount_info_bits)

lemma both_set_upd_runner: "both_set (w\<lparr>runner := r\<rparr>) u = both_set w u"
  by (simp add: both_set_def)

lemma both_set_adjustCount: "both_set (snd (adjustCount w upd d)) u = both_set w u"
  by (simp add: both_set_def models_adjustCount)

lemma both_set_addDelta:
  assumes "map_of (models w) u = None \<and> delta_model (Entity d) = Some u \<or> both_set w u"
  shows "both_set (addDelta w d) u"
proof -
  have pre: "\<And>upd v. delta_model (Entity d) = Some v \<Longrightarrow>
      map_of (models (snd (adjustCount w upd d))) u = None \<and> u = v
        \<or> both_set (snd (adjustCount w upd d)) u"
    using assms by (auto simp: models_adjustCount both_set_adjustCount)
  show ?thesis
  proof (cases "Entity d")
    case (ModelInfo v lf)
    then show ?thesis
      using both_set_with_modelInfo[OF keeps_bits_setLife pre[of v add_ModelCount]]
      by (simp add: addDelta_alt)
  next
    case (UnitInfo v name)
    then show ?thesis
      using both_set_with_modelInfo[OF keeps_bits_adjustCount_info pre[of v add_UnitCount]]
      by (simp add: addDelta_alt)
  next
    case (ApplicationInfo v name)
    then show ?thesis
      using both_set_with_modelInfo[OF keeps_bits_adjustCount_info pre[of v add_ServiceCount]]
      by (simp add: addDelta_alt)
  next
    case (MachineInfo v mid)
    then show ?thesis
      using both_set_with_modelInfo[OF keeps_bits_adjustCount_info pre[of v add_MachineCount]]
      by (simp add: addDelta_alt both_set_upd_runner)
  next
    case (OtherInfo i)
    then show ?thesis using assms by (simp add: addDelta_alt)
  qed
qed

lemma map_of_models_addDelta_other:
  "delta_model (Entity d) \<noteq> Some u \<Longrightarrow> map_of (models (addDelta w d)) u = map_of (models w) u"
  by (cases "Entity d")
     (simp_all add: addDelta_alt map_of_with_modelInfo models_adjustCount)

lemma both_set_foldl_keep: "both_set w u \<Longrightarrow> both_set (foldl addDelta w ds) u"
  by (induction ds arbitrary: w) (simp_all add: both_set_addDelta)

lemma both_set_foldl:
  assumes "map_of (models w) u = None \<or> both_set w u"
    and "\<exists>d \<in> set ds. delta_model (Entity d) = Some u"
  shows "both_set (foldl addDelta w ds) u"
  using assms
proof (induction ds arbitrary: w)
  case Nil
  then show ?case by simp
next
  case (Cons d ds)
  show ?case
  proof (cases "delta_model (Entity d) = Some u")
    case True
    with Cons.prems(1) have "both_set (addDelta w d) u"
      by (intro both_set_addDelta) auto
    then show ?thesis by (simp add: both_set_foldl_keep)
  next
    case False
    with Cons.prems(2) have ex: "\<exists>d \<in> set ds. delta_model (Entity d) = Some u" by auto
    have "map_of (models (addDelta w d)) u = None \<or> both_set (addDelta w d) u"
      using Cons.prems(1) False
      by (auto simp: map_of_models_addDelta_other intro: both_set_addDelta)
    from Cons.IH[OF this ex] show ?thesis by simp
  qed
qed

lemma ctlPath_adjustCount: "ctlPath (snd (adjustCount w upd d)) = ctlPath w"
  by (simp add: adjustCount_def Let_def)

lemma ctlPath_addDelta: "ctlPath (addDelta w d) = ctlPath w"
  by (cases "Entity d") (simp_all add: addDelta_alt with_modelInfo_fields ctlPath_adjustCount)

lemma ctlPath_foldl: "ctlPath (foldl addDelta w ds) = ctlPath w"
  by (induction ds arbitrary: w) (simp_all add: ctlPath_addDelta)

lemma flush_both:
  assumes "both_set w u"
  shows "\<exists>info. map_of (models w) u = Some info
           \<and> SetModelLife p u (life info) \<in> set (concat (map (flush_model p) (models w)))
           \<and> UpdateModelCounts u (counts info) \<in> set (concat (map (flush_model p) (models w)))"
proof -
  from assms obtain info where i: "map_of (models w) u = Some info"
    "and (changed info) lifeChange \<noteq> 0" "and (changed info) countsChange \<noteq> 0"
    by (auto simp: both_set_def)
  then have mem: "(u, info) \<in> set (models w)" by (simp add: map_of_SomeD)
  have "SetModelLife p u (life info) \<in> set (flush_model p (u, info))"
    and "UpdateModelCounts u (counts info) \<in> set (flush_model p (u, info))"
    using i by (simp_all add: flush_model_def)
  with mem i(1) show ?thesis by auto
qed

lemma new_entry:
  "map_of (models w) u = None \<Longrightarrow>
     fst (modelInfo_w w u) = new_modelInfo u
     \<and> map_of (models (snd (modelInfo_w w u))) u = Some (new_modelInfo u)"
  by (simp add: modelInfo_w_def update_conv')

lemma new_modelInfo_all_bits: "bit (changed (new_modelInfo u)) n"
  by (simp add: new_modelInfo_def bit_not_iff)

lemma new_modelInfo_counts: "counts (new_modelInfo u) k = Some 0"
  by (cases k) (simp_all add: new_modelInfo_def)

text \<open>
  Claim C10. When the reducer looks up a model UUID that has no entry yet, which any
  model, unit, application or machine delta of that model triggers, it creates the entry
  with every change bit set and the three counts at zero. Hence the flush of the batch in
  which the entry was created issues both a model-life update and a model-counts update
  for that model, whatever the deltas of the batch did to its life and counts.
\<close>

theorem new_model_entry_flushes_life_and_counts:
  "(map_of (models w) u = None \<longrightarrow>
      (let info = fst (modelInfo_w w u)
       in map_of (models (snd (modelInfo_w w u))) u = Some info
          \<and> (\<forall>n. bit (changed info) n) \<and> (\<forall>k. counts info k = Some 0)))
   \<and> (map_of (models w) u = None \<and> (\<exists>d \<in> set deltas. delta_model (Entity d) = Some u) \<longrightarrow>
        (\<exists>info. map_of (models (batch_state w deltas)) u = Some info
           \<and> SetModelLife (ctlPath w) u (life info) \<in> set (fst (watch_batch w deltas))
           \<and> UpdateModelCounts u (counts info) \<in> set (fst (watch_batch w deltas))))"
proof (intro conjI impI)
  assume "map_of (models w) u = None"
  then show "let info = fst (modelInfo_w w u)
       in map_of (models (snd (modelInfo_w w u))) u = Some info
          \<and> (\<forall>n. bit (changed info) n) \<and> (\<forall>k. counts info k = Some 0)"
    using new_entry[of w u] allI[of "bit (changed (new_modelInfo u))", OF new_modelInfo_all_bits]
    by (simp add: new_modelInfo_counts Let_def)
next
  assume a: "map_of (models w) u = None \<and> (\<exists>d \<in> set deltas. delta_model (Entity d) = Some u)"
  let ?w0 = "w\<lparr>changed_w := False, runner := []\<rparr>"
  have "map_of (models ?w0) u = None \<or> both_set ?w0 u" using a by simp
  from both_set_foldl[OF this] a have "both_set (batch_state w deltas) u"
    by (simp add: batch_state_def)
  from flush_both[OF this, of "ctlPath w"] show
    "\<exists>info. map_of (models (batch_state w deltas)) u = Some info
           \<and> SetModelLife (ctlPath w) u (life info) \<in> set (fst (watch_batch w deltas))
           \<and> UpdateModelCounts u (counts info) \<in> set (fst (watch_batch w deltas))"
    by (auto simp: watch_batch_def Let_def batch_state_def ctlPath_foldl)
qed

text \<open>The removal of a unit never seen before, in a model never seen before: no count and
  no life changes, and the flush still issues both updates for the model.\<close>

theorem new_model_entry_flushes_life_and_counts_witness:
  "map_of (models (newWatcherState example_ctl)) ''a'' = None
   \<and> delta_model (Entity \<lparr>Removed = True, Entity = UnitInfo ''a'' ''u/1''\<rparr>) = Some ''a''
   \<and> fst (watch_batch (newWatcherState example_ctl) [\<lparr>Removed = True, Entity = UnitInfo ''a'' ''u/1''\<rparr>])
       = [SetModelLife example_ctl ''a'' [],
          UpdateModelCounts ''a''
            [params_UnitCount \<mapsto> 0, params_MachineCount \<mapsto> 0, params_ApplicationCount \<mapsto> 0]]"
  using new_model_entry_flushes_life_and_counts[of "newWatcherState example_ctl" "''a''"
      "[\<lparr>Removed = True, Entity = UnitInfo ''a'' ''u/1''\<rparr>]"]
  by (simp add: watch_batch_def flush_model_def lifeChange_def countsChange_def reducer_eval)

section \<open>Properties of the lease loop\<close>




lemma renewTime_value: "renewTime 60000000000 example_monitor = 85000000000"
  by (simp add: renewTime_def example_monitor_def signed_divide_int_def)





section \<open>Properties of the API gateway\<close>

subsection \<open>Method lookup\<close>

lemma facades_lookup_cases:
  "facades_lookup r v = [] \<and> map_of facades (r, v) = None
   \<or> (\<exists>rn. map_of facades (r, v) = Some rn \<and> facades_lookup r v = rn \<and> rn \<noteq> []
         \<and> map_of root_methods rn \<noteq> None)"
  by (auto simp: facades_lookup_def facades_def root_methods_def split: option.splits)

lemma FindMethod_resolved:
  assumes "fst (resolve_step j h) = None"
  shows "fst (FindMethod j h r v m) =
     (if Username (snd (resolve_step j h)) = [] \<and> r \<noteq> ''Admin''
      then Inl (CallNotImplementedError r v [])
      else if r = ''Admin'' \<and> v < 3
      then Inl (RequestError CodeNotSupported ''JAAS does not support login from old clients'')
      else if facades_lookup r v \<noteq> []
      then rpcreflect_FindMethod (facades_lookup r v) 0 m
      else Inl (CallNotImplementedError r v []))"
  using assms by (cases "resolve_step j h") (simp add: FindMethod_def)

lemma FindMethod_unresolved:
  assumes "fst (resolve_step j h) = Some e"
  shows "fst (FindMethod j h r v m) = Inl (GoError (Mask e no_pass))"
  using assms by (cases "resolve_step j h") (simp add: FindMethod_def)

lemma rpcreflect_unregistered:
  assumes "map_of facades (r, v) = Some rn" and "\<not> registered r v m"
  shows "is_CallNotImplemented (rpcreflect_FindMethod rn 0 m)"
  using assms
  by (auto simp: registered_def rpcreflect_FindMethod_def split: option.splits)

text \<open>
  Claim C9, amended. When the model UUID of the connection is empty or resolves to a model
  and its controller, a call to the Admin facade with a version below 3 yields the error
  with code \<^verbatim>\<open>CodeNotSupported\<close> and message "JAAS does not support login from old clients",
  and every other tuple that is not in the registered tables yields a
  \<^verbatim>\<open>CallNotImplementedError\<close>. When the UUID does not resolve, every call yields the masked
  error of the resolution instead.
\<close>

theorem FindMethod_unknown_and_old_admin:
  "(fst (resolve_step j h) = None \<longrightarrow>
      (r = ''Admin'' \<and> v < 3 \<longrightarrow>
         fst (FindMethod j h r v m)
           = Inl (RequestError CodeNotSupported ''JAAS does not support login from old clients''))
      \<and> (\<not> (r = ''Admin'' \<and> v < 3) \<and> \<not> registered r v m \<longrightarrow>
           is_CallNotImplemented (fst (FindMethod j h r v m))))
   \<and> (fst (resolve_step j h) = Some e \<longrightarrow>
        fst (FindMethod j h r v m) = Inl (GoError (Mask e no_pass)))"
proof (intro conjI impI)
  assume res: "fst (resolve_step j h) = None" and "r = ''Admin'' \<and> v < 3"
  then show "fst (FindMethod j h r v m)
           = Inl (RequestError CodeNotSupported ''JAAS does not support login from old clients'')"
    by (simp add: FindMethod_resolved)
next
  assume res: "fst (resolve_step j h) = None"
    and nr: "\<not> (r = ''Admin'' \<and> v < 3) \<and> \<not> registered r v m"
  from facades_lookup_cases[of r v]
  show "is_CallNotImplemented (fst (FindMethod j h r v m))"
  proof
    assume "facades_lookup r v = [] \<and> map_of facades (r, v) = None"
    then show ?thesis using res nr by (simp add: FindMethod_resolved)
  next
    assume "\<exists>rn. map_of facades (r, v) = Some rn \<and> facades_lookup r v = rn \<and> rn \<noteq> []
         \<and> map_of root_methods rn \<noteq> None"
    then obtain rn where rn: "map_of facades (r, v) = Some rn" "facades_lookup r v = rn" "rn \<noteq> []"
      by blast
    from rpcreflect_unregistered[OF rn(1)] nr
    have "is_CallNotImplemented (rpcreflect_FindMethod rn 0 m)" by simp
    then show ?thesis using res nr rn by (simp add: FindMethod_resolved)
  qed
next
  assume "fst (resolve_step j h) = Some e"
  then show "fst (FindMethod j h r v m) = Inl (GoError (Mask e no_pass))"
    by (rule FindMethod_unresolved)
qed

lemmas FindMethod_eval =
  FindMethod_def resolve_step_def resolveUUID_def empty_store_def model_connection_def
  controller_connection_def Mask_def no_pass_def facades_lookup_def facades_def
  rpcreflect_FindMethod_def root_methods_def registered_def CodeNotSupported_def

text \<open>
  Claim C9, as stated for every incoming RPC, fails on a connection whose URL names a model
  the store does not know: \<^verbatim>\<open>FindMethod\<close> returns the error of \<^verbatim>\<open>resolveUUID\<close> before it looks
  at the tuple, so an Admin call of version 2 does not get \<^verbatim>\<open>CodeNotSupported\<close> and an
  unregistered tuple does not get a \<^verbatim>\<open>CallNotImplementedError\<close>.
\<close>

theorem FindMethod_unknown_and_old_admin_counterexample:
  "fst (FindMethod empty_store model_connection ''Admin'' 2 ''Login'')
     \<noteq> Inl (RequestError CodeNotSupported ''JAAS does not support login from old clients'')
   \<and> \<not> registered ''Undertaker'' 1 ''Watch''
   \<and> \<not> is_CallNotImplemented (fst (FindMethod empty_store model_connection ''Undertaker'' 1 ''Watch''))"
  by (simp add: FindMethod_eval)

text \<open>The amended claim on a controller connection before login (an old Admin login, an
  unknown method, an unknown version) and on the connection to the unknown model.\<close>

theorem FindMethod_unknown_and_old_admin_witness:
  "fst (resolve_step empty_store controller_connection) = None
   \<and> fst (FindMethod empty_store controller_connection ''Admin'' 2 ''Login'')
       = Inl (RequestError ''not supported'' ''JAAS does not support login from old clients'')
   \<and> \<not> registered ''Admin'' 3 ''Logout''
   \<and> fst (FindMethod empty_store controller_connection ''Admin'' 3 ''Logout'')
       = Inl (CallNotImplementedError ''Admin'' 0 ''Logout'')
   \<and> \<not> registered ''Admin'' 4 ''Login''
   \<and> fst (FindMethod empty_store controller_connection ''Admin'' 4 ''Login'')
       = Inl (CallNotImplementedError ''Admin'' 4 [])
   \<and> fst (resolve_step empty_store model_connection) = Some (Errgo ErrNotFound ''model not found'')
   \<and> fst (FindMethod empty_store model_connection ''Pinger'' 1 ''Ping'')
       = Inl (GoError (Errgo CauseSelf ''model not found''))"
  using FindMethod_unknown_and_old_admin[of empty_store controller_connection "''Admin''" 2 "''Login''"]
    FindMethod_unknown_and_old_admin[of empty_store controller_connection "''Admin''" 3 "''Logout''"]
    FindMethod_unknown_and_old_admin[of empty_store model_connection "''Pinger''" 1 "''Ping''"
      "Errgo ErrNotFound ''model not found''"]
  by (simp add: FindMethod_eval)

subsection \<open>Model operations on a model that is not found\<close>












section \<open>Properties of the watcher\<close>

subsection \<open>Reconciliation\<close>

lemma check_step_fst:
  "fst (check_step api s m) =
     (if dying_valid m \<and> api (UUID_String m) \<noteq> None \<and> \<not> is_not_found (api (UUID_String m))
      then api (UUID_String m) else None)"
  by (auto simp: check_step_def check_model_def checkDyingModel_def dying_valid_def is_not_found_def
      DeleteModel_def E_def Let_def split: option.splits)

lemma check_step_db:
  "Models (cs_db (snd (check_step api s m))) =
     (if gone api m then filter (\<lambda>r. ID r \<noteq> ID m) (Models (cs_db s)) else Models (cs_db s))"
  by (auto simp: check_step_def check_model_def checkDyingModel_def dying_valid_def gone_def
      is_not_found_def DeleteModel_def E_def Let_def split: option.splits)


lemma for_each_Cons:
  "for_each f s (x # xs) =
     (if fst (f s x) \<noteq> None then f s x else for_each f (snd (f s x)) xs)"
  by (cases "f s x") (auto split: option.splits)



lemma for_each_any:
  "\<exists>D. D \<subseteq> {m \<in> set ms. gone api m}
     \<and> Models (cs_db (snd (for_each (check_step api) s ms)))
         = filter (\<lambda>r. \<not> (\<exists>m \<in> D. ID m = ID r)) (Models (cs_db s))"
proof (induction ms arbitrary: s)
  case Nil
  show ?case by (intro exI[of _ "{}"]) simp
next
  case (Cons m ms)
  show ?case
  proof (cases "fst (check_step api s m) = None")
    case False
    then have "\<not> gone api m"
      by (auto simp: check_step_fst gone_def split: if_splits)
    then have "Models (cs_db (snd (for_each (check_step api) s (m # ms)))) = Models (cs_db s)"
      using False by (simp add: for_each_Cons check_step_db del: for_each.simps)
    then show ?thesis by (intro exI[of _ "{}"]) simp
  next
    case True
    then have eq: "for_each (check_step api) s (m # ms)
        = for_each (check_step api) (snd (check_step api s m)) ms"
      by (simp add: for_each_Cons del: for_each.simps)
    from Cons.IH[of "snd (check_step api s m)"] obtain D where
      D: "D \<subseteq> {m \<in> set ms. gone api m}"
         "Models (cs_db (snd (for_each (check_step api) (snd (check_step api s m)) ms)))
            = filter (\<lambda>r. \<not> (\<exists>m \<in> D. ID m = ID r)) (Models (cs_db (snd (check_step api s m))))"
      by blast
    show ?thesis
    proof (cases "gone api m")
      case g: True
      have "Models (cs_db (snd (for_each (check_step api) s (m # ms))))
              = filter (\<lambda>r. \<not> (\<exists>m' \<in> insert m D. ID m' = ID r)) (Models (cs_db s))"
        unfolding eq D(2) using g by (auto simp: check_step_db intro: filter_cong)
      moreover have "insert m D \<subseteq> {m' \<in> set (m # ms). gone api m'}" using D(1) g by auto
      ultimately show ?thesis by blast
    next
      case g: False
      have "Models (cs_db (snd (for_each (check_step api) s (m # ms))))
              = filter (\<lambda>r. \<not> (\<exists>m' \<in> D. ID m' = ID r)) (Models (cs_db s))"
        unfolding eq D(2) using g by (simp add: check_step_db)
      moreover have "D \<subseteq> {m' \<in> set (m # ms). gone api m'}" using D(1) by auto
      ultimately show ?thesis by blast
    qed
  qed
qed

lemma reconcile_unfold:
  "reconcile api db ctl =
     (let r = for_each (check_step api) \<lparr>cs_db = db, queried = [], modelIDs = Map.empty\<rparr>
                (filter (\<lambda>m. ControllerID m = ctl_ID ctl) (Models db))
      in (case fst r of Some err \<Rightarrow> Inl (E ''jimm.checkControllerModels'' err)
                      | None \<Rightarrow> Inr (modelIDs (snd r)), snd r))"
  by (simp add: reconcile_def checkControllerModels_def check_step_def Let_def
      split: prod.splits option.splits)

lemma distinct_ID_eq:
  assumes "distinct (map ID xs)" and "m \<in> set xs" and "r \<in> set xs" and "ID m = ID r"
  shows "m = r"
  using assms by (meson distinct_map inj_onD)

lemma reconcile_db_any:
  "\<exists>D. D \<subseteq> {m \<in> set (Models db). ControllerID m = ctl_ID ctl \<and> gone api m}
     \<and> Models (cs_db (snd (reconcile api db ctl)))
         = filter (\<lambda>r. \<not> (\<exists>m \<in> D. ID m = ID r)) (Models db)"
  using for_each_any[of "filter (\<lambda>m. ControllerID m = ctl_ID ctl) (Models db)" api
      "\<lparr>cs_db = db, queried = [], modelIDs = Map.empty\<rparr>"]
  by (auto simp: reconcile_unfold Let_def)

lemma doomed_alt: "doomed api ctl m = (ControllerID m = ctl_ID ctl \<and> gone api m)"
  by (auto simp: doomed_def gone_def dying_valid_def)

lemma reconcile_removed_doomed:
  assumes "distinct (map ID (Models db))" and "r \<in> set (Models db)"
    and "r \<notin> set (Models (cs_db (snd (reconcile api db ctl))))"
  shows "doomed api ctl r"
proof -
  from reconcile_db_any[of db ctl api] obtain D where
    D: "D \<subseteq> {m \<in> set (Models db). ControllerID m = ctl_ID ctl \<and> gone api m}"
       "Models (cs_db (snd (reconcile api db ctl)))
          = filter (\<lambda>r. \<not> (\<exists>m \<in> D. ID m = ID r)) (Models db)"
    by blast
  from assms(2,3) D(2) obtain m where m: "m \<in> D" "ID m = ID r" by auto
  with D(1) have "m \<in> set (Models db)" by auto
  from distinct_ID_eq[OF assms(1) this assms(2) m(2)] m(1) D(1) show ?thesis
    by (auto simp: doomed_alt)
qed





lemmas watcher_eval =
  reconcile_def checkControllerModels_def check_model_def checkDyingModel_def DeleteModel_def
  E_def UUID_String_def example_db_def example_controller_def model_a_def model_b_def model_c_def
  models_gone_def doomed_def is_not_found_def Let_def



subsection \<open>Removal of models by deltas\<close>

lemma GetModel_by_ID:
  assumes "i \<noteq> 0"
  shows "GetModel db (new_Model\<lparr>ID := i\<rparr>) =
     (case find (\<lambda>r. ID r = i) (Models db) of
        None \<Rightarrow> Inl (Errgo ErrNotFound ''model not found'') | Some r \<Rightarrow> Inr r)"
  using assms by (simp add: GetModel_def new_Model_def)

lemma GetModel_Inr_D:
  assumes "i \<noteq> 0" and "GetModel db (new_Model\<lparr>ID := i\<rparr>) = Inr r"
  shows "r \<in> set (Models db) \<and> ID r = i"
proof -
  from assms have "find (\<lambda>r. ID r = i) (Models db) = Some r"
    by (simp add: GetModel_by_ID split: option.splits)
  then show ?thesis by (auto simp: find_Some_iff)
qed

lemma GetModel_Inl_cause: "GetModel db m = Inl e \<Longrightarrow> Cause e = ErrNotFound"
  by (auto simp: GetModel_def split: option.splits)

lemma deleteModel_Models:
  assumes "i \<noteq> 0"
  shows "deleteModel db (new_Model\<lparr>ID := i\<rparr>) =
     (case GetModel db (new_Model\<lparr>ID := i\<rparr>) of
        Inr r \<Rightarrow> if Life r = ''dying''
                 then (None, db\<lparr>Models := filter (\<lambda>x. ID x \<noteq> i) (Models db)\<rparr>) else (None, db)
      | Inl e \<Rightarrow> (None, db))"
proof (cases "GetModel db (new_Model\<lparr>ID := i\<rparr>)")
  case (Inl e)
  then show ?thesis
    using GetModel_Inl_cause[OF Inl]
    by (simp add: deleteModel_def Transaction_def new_Model_def)
next
  case (Inr r)
  with GetModel_Inr_D[OF assms Inr] show ?thesis
    by (simp add: deleteModel_def Transaction_def DeleteModel_def)
qed

lemma has_model_map_ID: "has_model db i = (i \<in> set (map ID (Models db)))"
  by (auto simp: has_model_def)

lemma map_ID_replace:
  "map ID (map (\<lambda>r. if ID r = ID m then m else r) xs) = map ID xs"
  by (induction xs) auto

lemma has_model_UpdateModel: "has_model (snd (UpdateModel db m)) i = has_model db i"
proof -
  have "Models (snd (UpdateModel db m)) = map (\<lambda>r. if ID r = ID m then m else r) (Models db)"
    by (simp add: UpdateModel_def)
  then have "map ID (Models (snd (UpdateModel db m))) = map ID (Models db)"
    by (simp only: map_ID_replace)
  then show ?thesis by (simp only: has_model_map_ID)
qed

lemma has_model_updateModel: "has_model (snd (updateModel db m lf cols)) i = has_model db i"
proof (cases "GetModel db m")
  case (Inl e)
  then show ?thesis
    using GetModel_Inl_cause[OF Inl] has_model_UpdateModel[of db "FromJujuModelUpdate m lf cols" i]
    by (simp add: updateModel_def Transaction_def UpdateModel_def)
next
  case (Inr r)
  then show ?thesis
    using has_model_UpdateModel[of db "FromJujuModelUpdate r lf cols" i]
    by (simp add: updateModel_def Transaction_def UpdateModel_def)
qed

lemma Models_rows [simp]:
  "Models (snd (DeleteApplication db a)) = Models db"
  "Models (snd (DeleteMachine db a)) = Models db"
  "Models (snd (DeleteUnit db a)) = Models db"
  "Models (snd (updateApplication db a cols)) = Models db"
  "Models (snd (updateMachine db a cols)) = Models db"
  "Models (snd (updateUnit db a cols)) = Models db"
  by (auto simp: DeleteApplication_def DeleteMachine_def DeleteUnit_def
      updateApplication_def updateMachine_def updateUnit_def Transaction_def
      UpdateApplication_def UpdateMachine_def UpdateUnit_def split: sum.splits)

lemma handleDelta_db:
  "fst (snd (handleDelta ctl db ids d)) =
     (let i = delta_modelID ctl db ids d in
      if i = 0 then db
      else case jp_Entity d of
             jp_ApplicationInfo u n cols \<Rightarrow>
               snd (if jp_Removed d
                    then DeleteApplication db \<lparr>ModelID = i, row_Name = n, row_Info = []\<rparr>
                    else updateApplication db \<lparr>ModelID = i, row_Name = n, row_Info = []\<rparr> cols)
           | jp_MachineInfo u n cols \<Rightarrow>
               snd (if jp_Removed d
                    then DeleteMachine db \<lparr>ModelID = i, row_Name = n, row_Info = []\<rparr>
                    else updateMachine db \<lparr>ModelID = i, row_Name = n, row_Info = []\<rparr> cols)
           | jp_ModelUpdate u lf cols \<Rightarrow>
               snd (if jp_Removed d then deleteModel db (new_Model\<lparr>ID := i\<rparr>)
                    else updateModel db (new_Model\<lparr>ID := i\<rparr>) lf cols)
           | jp_UnitInfo u n cols \<Rightarrow>
               snd (if jp_Removed d
                    then DeleteUnit db \<lparr>ModelID = i, row_Name = n, row_Info = []\<rparr>
                    else updateUnit db \<lparr>ModelID = i, row_Name = n, row_Info = []\<rparr> cols)
           | jp_OtherInfo e \<Rightarrow> db)"
  by (simp add: handleDelta_def delta_modelID_def Let_def
      split: prod.splits jujuparams_EntityInfo.splits)

lemma handleDelta_removes:
  assumes "has_model db i" and "\<not> has_model (fst (snd (handleDelta ctl db ids d))) i"
  shows "jp_Removed d \<and> Kind (jp_EntityId (jp_Entity d)) = ''model''
         \<and> delta_modelID ctl db ids d = i
         \<and> (\<exists>r \<in> set (Models db). ID r = i \<and> Life r = ''dying'')"
proof -
  let ?i = "delta_modelID ctl db ids d"
  have nz: "?i \<noteq> 0" using assms by (auto simp: handleDelta_db Let_def split: if_splits)
  show ?thesis
  proof (cases "jp_Entity d")
    case (jp_ModelUpdate u lf cols)
    have rem: "jp_Removed d"
      using assms nz jp_ModelUpdate
      by (auto simp: handleDelta_db Let_def has_model_updateModel split: if_splits)
    then have db': "fst (snd (handleDelta ctl db ids d)) = snd (deleteModel db (new_Model\<lparr>ID := ?i\<rparr>))"
      using nz jp_ModelUpdate by (simp add: handleDelta_db Let_def)
    show ?thesis
    proof (cases "GetModel db (new_Model\<lparr>ID := ?i\<rparr>)")
      case (Inl e)
      then show ?thesis using assms db' by (simp add: deleteModel_Models[OF nz])
    next
      case (Inr r)
      note r = GetModel_Inr_D[OF nz Inr]
      show ?thesis
      proof (cases "Life r = ''dying''")
        case True
        have "?i = i"
        proof (rule ccontr)
          assume "?i \<noteq> i"
          then have "has_model (snd (deleteModel db (new_Model\<lparr>ID := ?i\<rparr>))) i"
            using assms(1) Inr True
            by (auto simp: deleteModel_Models[OF nz] has_model_def)
          with assms(2) db' show False by simp
        qed
        with rem r True jp_ModelUpdate show ?thesis by auto
      next
        case False
        then show ?thesis using assms db' Inr by (simp add: deleteModel_Models[OF nz])
      qed
    qed
  qed (use assms nz in \<open>auto simp: handleDelta_db Let_def has_model_def split: if_splits\<close>)
qed

lemma handleDelta_not_dying:
  assumes "jp_Removed d" and "jp_Entity d = jp_ModelUpdate u lf cols"
    and "\<not> (\<exists>r. GetModel db (new_Model\<lparr>ID := delta_modelID ctl db ids d\<rparr>) = Inr r \<and> Life r = ''dying'')"
  shows "fst (snd (handleDelta ctl db ids d)) = db"
proof (cases "delta_modelID ctl db ids d = 0")
  case True
  then show ?thesis by (simp add: handleDelta_db)
next
  case False
  then show ?thesis using assms
    by (auto simp: handleDelta_db Let_def deleteModel_Models[OF False] split: sum.splits)
qed

lemma handleDelta_dying:
  assumes "jp_Removed d" and "jp_Entity d = jp_ModelUpdate u lf cols"
    and "delta_modelID ctl db ids d \<noteq> 0"
    and "GetModel db (new_Model\<lparr>ID := delta_modelID ctl db ids d\<rparr>) = Inr r" and "Life r = ''dying''"
  shows "Models (fst (snd (handleDelta ctl db ids d)))
           = filter (\<lambda>x. ID x \<noteq> delta_modelID ctl db ids d) (Models db)"
  using assms by (simp add: handleDelta_db Let_def deleteModel_Models[OF assms(3)])

text \<open>
  Claim C8. If a delta makes a model disappear from the store, then it is a removed model
  delta for that model and the model's recorded life was "dying"; such a delta does remove
  a dying model. A removed model delta for a model whose recorded life is anything else
  (or that the store does not hold) leaves the store as it was. The reconciliation before
  the first delta, the watcher's only other deletion, removes only dying models that the
  controller reports as not found.
\<close>

theorem watcher_removes_only_dying_models:
  "(has_model db i \<and> \<not> has_model (fst (snd (handleDelta ctl db ids d))) i \<longrightarrow>
      jp_Removed d \<and> Kind (jp_EntityId (jp_Entity d)) = ''model''
      \<and> delta_modelID ctl db ids d = i
      \<and> (\<exists>r \<in> set (Models db). ID r = i \<and> Life r = ''dying''))
   \<and> (jp_Removed d \<and> jp_Entity d = jp_ModelUpdate u lf cols
       \<and> \<not> (\<exists>r. GetModel db (new_Model\<lparr>ID := delta_modelID ctl db ids d\<rparr>) = Inr r \<and> Life r = ''dying'')
      \<longrightarrow> fst (snd (handleDelta ctl db ids d)) = db)
   \<and> (jp_Removed d \<and> jp_Entity d = jp_ModelUpdate u lf cols \<and> delta_modelID ctl db ids d \<noteq> 0
       \<and> GetModel db (new_Model\<lparr>ID := delta_modelID ctl db ids d\<rparr>) = Inr m \<and> Life m = ''dying''
      \<longrightarrow> Models (fst (snd (handleDelta ctl db ids d)))
            = filter (\<lambda>x. ID x \<noteq> delta_modelID ctl db ids d) (Models db))
   \<and> (distinct (map ID (Models db)) \<longrightarrow>
        (\<forall>r \<in> set (Models db).
           r \<notin> set (Models (cs_db (snd (reconcile api db ctl))))
             \<longrightarrow> Life r = ''dying'' \<and> is_not_found (api (UUID_String r))))"
proof (intro conjI impI ballI)
  assume "has_model db i \<and> \<not> has_model (fst (snd (handleDelta ctl db ids d))) i"
  then have h: "jp_Removed d \<and> Kind (jp_EntityId (jp_Entity d)) = ''model''
         \<and> delta_modelID ctl db ids d = i
         \<and> (\<exists>r \<in> set (Models db). ID r = i \<and> Life r = ''dying'')"
    using handleDelta_removes[of db i ctl ids d] by blast
  from h show "jp_Removed d" by blast
  from h show "Kind (jp_EntityId (jp_Entity d)) = ''model''" by blast
  from h show "delta_modelID ctl db ids d = i" by blast
  from h show "\<exists>r \<in> set (Models db). ID r = i \<and> Life r = ''dying''" by blast
next
  assume "jp_Removed d \<and> jp_Entity d = jp_ModelUpdate u lf cols
       \<and> \<not> (\<exists>r. GetModel db (new_Model\<lparr>ID := delta_modelID ctl db ids d\<rparr>) = Inr r \<and> Life r = ''dying'')"
  then show "fst (snd (handleDelta ctl db ids d)) = db"
    using handleDelta_not_dying[of d u lf cols db ctl ids] by blast
next
  assume "jp_Removed d \<and> jp_Entity d = jp_ModelUpdate u lf cols \<and> delta_modelID ctl db ids d \<noteq> 0
       \<and> GetModel db (new_Model\<lparr>ID := delta_modelID ctl db ids d\<rparr>) = Inr m \<and> Life m = ''dying''"
  then show "Models (fst (snd (handleDelta ctl db ids d)))
            = filter (\<lambda>x. ID x \<noteq> delta_modelID ctl db ids d) (Models db)"
    using handleDelta_dying[of d u lf cols ctl db ids m] by blast
next
  fix r
  assume "distinct (map ID (Models db))" "r \<in> set (Models db)"
    "r \<notin> set (Models (cs_db (snd (reconcile api db ctl))))"
  then have d: "doomed api ctl r" by (rule reconcile_removed_doomed)
  from d show "Life r = ''dying''" by (simp add: doomed_def)
  from d show "is_not_found (api (UUID_String r))" by (simp add: doomed_def)
qed

lemmas handleDelta_eval =
  handleDelta_def modelIDf_def GetModel_def deleteModel_def updateModel_def Transaction_def
  UpdateModel_def FromJujuModelUpdate_def new_Model_def has_model_def delta_modelID_def

text \<open>Removed model deltas for the dying model a and for the live model c of the example
  store.\<close>

theorem watcher_removes_only_dying_models_witness:
  "has_model example_db 1
   \<and> \<not> has_model (fst (snd (handleDelta example_controller example_db Map.empty
            \<lparr>jp_Removed = True, jp_Entity = jp_ModelUpdate ''uuid-a'' ''dead'' []\<rparr>))) 1
   \<and> Models (fst (snd (handleDelta example_controller example_db Map.empty
            \<lparr>jp_Removed = True, jp_Entity = jp_ModelUpdate ''uuid-a'' ''dead'' []\<rparr>)))
       = [model_b, model_c]
   \<and> GetModel example_db (new_Model\<lparr>ID := 3\<rparr>) = Inr model_c
   \<and> Life model_c \<noteq> ''dying''
   \<and> fst (snd (handleDelta example_controller example_db Map.empty
            \<lparr>jp_Removed = True, jp_Entity = jp_ModelUpdate ''uuid-c'' ''dead'' []\<rparr>)) = example_db
   \<and> distinct (map ID (Models example_db))
   \<and> Models (cs_db (snd (reconcile models_gone example_db example_controller))) = [model_c]"
  using watcher_removes_only_dying_models[of example_db 1 example_controller Map.empty
      "\<lparr>jp_Removed = True, jp_Entity = jp_ModelUpdate ''uuid-a'' ''dead'' []\<rparr>"
      "''uuid-a''" "''dead''" "[]" model_a models_gone]
    watcher_removes_only_dying_models[of example_db 3 example_controller Map.empty
      "\<lparr>jp_Removed = True, jp_Entity = jp_ModelUpdate ''uuid-c'' ''dead'' []\<rparr>"
      "''uuid-c''" "''dead''" "[]" model_c models_gone]
  by (simp add: handleDelta_eval watcher_eval)

section \<open>Properties of the orchestrator\<close>

subsection \<open>Creating a model without a credential path\<close>

lemma choose_one:
  assumes "p_Credential p = no_credential" and "caller_credentials st caller (p_Cloud p) = [c]"
  shows "choose_credential st caller p = Inr (cred_Path c)"
  using assms by (simp add: choose_credential_def)

lemma choose_none:
  assumes "p_Credential p = no_credential" and "caller_credentials st caller (p_Cloud p) = []"
  shows "choose_credential st caller p = Inr no_credential"
  using assms by (simp add: choose_credential_def)

lemma choose_many:
  assumes "p_Credential p = no_credential" and "1 < length (caller_credentials st caller (p_Cloud p))"
  shows "choose_credential st caller p
           = Inl (Errgo ErrAmbiguousChoice ''more than one possible credential to use'')"
proof -
  from assms(2) obtain c c' cs where "caller_credentials st caller (p_Cloud p) = c # c' # cs"
    by (cases "caller_credentials st caller (p_Cloud p)" rule: list.exhaust)
       (auto simp: neq_Nil_conv)
  with assms(1) show ?thesis by (simp add: choose_credential_def)
qed

lemma create_with_credential_credential:
  assumes "create_with_credential env st caller p c = (Inr m, st')"
  shows "m_Credential m = c \<and> m \<in> set (db_Models st')"
  using assms
  by (auto simp: create_with_credential_def Let_def split: sum.splits if_splits prod.splits)

text \<open>
  Claim C3. When \<^verbatim>\<open>CreateModel\<close> is called by the owner of the path (or an administrator)
  with no credential path: if the caller has exactly one credential for the cloud, the
  model is created with that credential; if the caller has more than one, \<^verbatim>\<open>CreateModel\<close>
  fails with \<^verbatim>\<open>ErrAmbiguousChoice\<close> and leaves the store as it was, so no model row is
  persisted; if the caller has none, creation proceeds with no credential.
\<close>

theorem CreateModel_without_credential_path:
  assumes "caller = User (p_Path p) \<or> member_of env caller (ControllerAdmin env)"
    and "p_Credential p = no_credential"
  shows "(caller_credentials st caller (p_Cloud p) = [c] \<longrightarrow>
            CreateModel env st caller p = create_with_credential env st caller p (cred_Path c)
            \<and> (\<forall>m st'. CreateModel env st caller p = (Inr m, st') \<longrightarrow> m_Credential m = cred_Path c))
       \<and> (1 < length (caller_credentials st caller (p_Cloud p)) \<longrightarrow>
            CreateModel env st caller p
              = (Inl (Errgo ErrAmbiguousChoice ''more than one possible credential to use''), st))
       \<and> (caller_credentials st caller (p_Cloud p) = [] \<longrightarrow>
            CreateModel env st caller p = create_with_credential env st caller p no_credential
            \<and> (\<forall>m st'. CreateModel env st caller p = (Inr m, st') \<longrightarrow> m_Credential m = no_credential))"
proof (intro conjI impI allI)
  assume one: "caller_credentials st caller (p_Cloud p) = [c]"
  show eq: "CreateModel env st caller p = create_with_credential env st caller p (cred_Path c)"
    using assms choose_one[OF assms(2) one] by (auto simp: CreateModel_def)
  fix m st' assume "CreateModel env st caller p = (Inr m, st')"
  with eq show "m_Credential m = cred_Path c"
    using create_with_credential_credential[of env st caller p "cred_Path c" m st'] by simp
next
  assume "1 < length (caller_credentials st caller (p_Cloud p))"
  from choose_many[OF assms(2) this] assms(1)
  show "CreateModel env st caller p
          = (Inl (Errgo ErrAmbiguousChoice ''more than one possible credential to use''), st)"
    by (auto simp: CreateModel_def)
next
  assume none: "caller_credentials st caller (p_Cloud p) = []"
  show eq: "CreateModel env st caller p = create_with_credential env st caller p no_credential"
    using assms choose_none[OF assms(2) none] by (auto simp: CreateModel_def)
  fix m st' assume "CreateModel env st caller p = (Inr m, st')"
  with eq show "m_Credential m = no_credential"
    using create_with_credential_credential[of env st caller p no_credential m st'] by simp
qed

lemma ev_bob_creds:
  "caller_credentials create_store ''bob'' ''dummy''
     = [\<lparr>cred_Path = credentialPath ''dummy'' ''bob'' ''cred1'', cred_Type = ''empty'',
         cred_Controllers = [\<lparr>User = ''bob'', Name = ''controller''\<rparr>]\<rparr>]"
  by (simp add: caller_credentials_def create_store_def credentialPath_def)

lemma ev_alice_creds: "1 < length (caller_credentials create_store ''alice'' ''dummy'')"
  by (simp add: caller_credentials_def create_store_def credentialPath_def)

lemma ev_charlie_creds: "caller_credentials create_store ''charlie'' ''dummy'' = []"
  by (simp add: caller_credentials_def create_store_def credentialPath_def)

lemma ev_select:
  "SelectController test_env create_store caller ''dummy'' [] = Inr \<lparr>User = ''bob'', Name = ''controller''\<rparr>"
  by (simp add: SelectController_def test_env_def create_store_def test_controller_def may_read_def)

lemma ev_no_model:
  "name \<noteq> ''oldmodel'' \<Longrightarrow>
     \<not> (\<exists>m \<in> set (db_Models create_store). m_Path m = \<lparr>User = owner, Name = name\<rparr>)"
  by (simp add: create_store_def test_model_def)

lemma ev_create:
  assumes "name \<noteq> ''oldmodel''"
  shows "map_sum id m_Credential
           (fst (create_with_credential test_env create_store owner (create_params owner name) c)) = Inr c
       \<and> map m_Path (db_Models (snd (create_with_credential test_env create_store owner
                (create_params owner name) c)))
           = [\<lparr>User = ''bob'', Name = ''oldmodel''\<rparr>, \<lparr>User = owner, Name = name\<rparr>]"
proof -
  have p: "p_ControllerPath (create_params owner name) = no_path"
    "p_Cloud (create_params owner name) = ''dummy''" "p_Region (create_params owner name) = []"
    "p_Path (create_params owner name) = \<lparr>User = owner, Name = name\<rparr>"
    by (simp_all add: create_params_def)
  have api: "api_CreateModel test_env ctl q c
      = Inr (''00000000-0000-0000-0000-000000000001'', ''dummy-region'', ''xenial'')" for ctl q
    by (simp add: test_env_def)
  have ms: "map m_Path (db_Models create_store) = [\<lparr>User = ''bob'', Name = ''oldmodel''\<rparr>]"
    by (simp add: create_store_def test_model_def)
  show ?thesis
    using ev_no_model[OF assms, of owner]
    by (simp add: create_with_credential_def p ev_select api ms Let_def)
qed


text \<open>The three rows of \<^verbatim>\<open>createModelTests\<close> with empty cloud credentials: bob has one
  credential, alice two, charlie none.\<close>

theorem CreateModel_without_credential_path_witness:
  "caller_credentials create_store ''bob'' ''dummy''
     = [\<lparr>cred_Path = credentialPath ''dummy'' ''bob'' ''cred1'', cred_Type = ''empty'',
         cred_Controllers = [\<lparr>User = ''bob'', Name = ''controller''\<rparr>]\<rparr>]
   \<and> map_sum id m_Credential (fst (CreateModel test_env create_store ''bob'' (create_params ''bob'' ''test-6'')))
       = Inr (credentialPath ''dummy'' ''bob'' ''cred1'')
   \<and> 1 < length (caller_credentials create_store ''alice'' ''dummy'')
   \<and> CreateModel test_env create_store ''alice'' (create_params ''alice'' ''test-7'')
       = (Inl (Errgo ErrAmbiguousChoice ''more than one possible credential to use''), create_store)
   \<and> caller_credentials create_store ''charlie'' ''dummy'' = []
   \<and> map_sum id m_Credential (fst (CreateModel test_env create_store ''charlie'' (create_params ''charlie'' ''test-8'')))
       = Inr no_credential
   \<and> map m_Path (db_Models (snd (CreateModel test_env create_store ''charlie'' (create_params ''charlie'' ''test-8''))))
       = [\<lparr>User = ''bob'', Name = ''oldmodel''\<rparr>, \<lparr>User = ''charlie'', Name = ''test-8''\<rparr>]"
proof -
  have own: "owner = User (p_Path (create_params owner name))
               \<or> member_of test_env owner (ControllerAdmin test_env)" for owner name
    by (simp add: create_params_def)
  have nc: "p_Credential (create_params owner name) = no_credential" for owner name
    by (simp add: create_params_def)
  have cl: "p_Cloud (create_params owner name) = ''dummy''" for owner name
    by (simp add: create_params_def)
  have bob: "CreateModel test_env create_store ''bob'' (create_params ''bob'' ''test-6'')
      = create_with_credential test_env create_store ''bob'' (create_params ''bob'' ''test-6'')
          (credentialPath ''dummy'' ''bob'' ''cred1'')"
    using CreateModel_without_credential_path[where caller = "''bob''"
        and p = "create_params ''bob'' ''test-6''" and env = test_env and st = create_store
        and c = "\<lparr>cred_Path = credentialPath ''dummy'' ''bob'' ''cred1'', cred_Type = ''empty'',
          cred_Controllers = [\<lparr>User = ''bob'', Name = ''controller''\<rparr>]\<rparr>", OF own nc]
      ev_bob_creds
    by (simp add: cl)
  have alice: "CreateModel test_env create_store ''alice'' (create_params ''alice'' ''test-7'')
       = (Inl (Errgo ErrAmbiguousChoice ''more than one possible credential to use''), create_store)"
    using CreateModel_without_credential_path[where caller = "''alice''"
        and p = "create_params ''alice'' ''test-7''" and env = test_env and st = create_store,
        OF own nc]
      ev_alice_creds
    by (simp add: cl)
  have charlie: "CreateModel test_env create_store ''charlie'' (create_params ''charlie'' ''test-8'')
      = create_with_credential test_env create_store ''charlie'' (create_params ''charlie'' ''test-8'')
          no_credential"
    using CreateModel_without_credential_path[where caller = "''charlie''"
        and p = "create_params ''charlie'' ''test-8''" and env = test_env and st = create_store,
        OF own nc]
      ev_charlie_creds
    by (simp add: cl)
  have n6: "''test-6'' \<noteq> ''oldmodel''" and n8: "''test-8'' \<noteq> ''oldmodel''" by simp_all
  show ?thesis
    using ev_bob_creds ev_alice_creds ev_charlie_creds alice
      ev_create[OF n6, of "''bob''" "credentialPath ''dummy'' ''bob'' ''cred1''"]
      ev_create[OF n8, of "''charlie''" no_credential]
    by (simp only: bob charlie)
qed

subsection \<open>Granting and revoking access\<close>

lemma Mask_text: "Error_text (Mask e pass) = Error_text e"
  by (simp add: Mask_def)

lemma find_map_ACL:
  "find (\<lambda>m. m_Path m = path)
        (map (\<lambda>m. if m_Path m = path then m\<lparr>m_ACL := f (m_ACL m)\<rparr> else m) ms)
      = map_option (\<lambda>m. m\<lparr>m_ACL := f (m_ACL m)\<rparr>) (find (\<lambda>m. m_Path m = path) ms)"
  by (induction ms) auto

lemma model_ACL_set_ACL:
  "model_ACL st path = Some a \<Longrightarrow> model_ACL (set_ACL st path f) path = Some (f a)"
  by (auto simp: model_ACL_def set_ACL_def find_map_ACL)

text \<open>
  Claim C5, amended. \<^verbatim>\<open>GrantModel\<close> pushes the grant to the controller first and updates the
  local ACL only if the controller accepts it: if the controller rejects it, the error is
  returned with the controller's text and the store is exactly as before. \<^verbatim>\<open>RevokeModel\<close>
  returns the controller's error with its text too, but removes the user from the readers
  of the model's local ACL whether or not the controller accepts the revoke.
\<close>

theorem grant_revoke_controller_rejects:
  "(api_GrantModel env (m_UUID m) user access = Some e \<longrightarrow>
      GrantModel_jem env st m user access = (Some (Mask e no_pass), st)
      \<and> Error_text (Mask e no_pass) = Error_text e)
   \<and> (api_GrantModel env (m_UUID m) user access = None \<longrightarrow>
      fst (GrantModel_jem env st m user access) = None
      \<and> (\<forall>a. model_ACL st (m_Path m) = Some a \<longrightarrow>
            (\<exists>a'. model_ACL (snd (GrantModel_jem env st m user access)) (m_Path m) = Some a'
                  \<and> user \<in> set (acl_Read a'))))
   \<and> (api_RevokeModel env (m_UUID m) user access = Some e \<longrightarrow>
      fst (RevokeModel_jem env st m user access) = Some (Mask e no_pass)
      \<and> Error_text (Mask e no_pass) = Error_text e)
   \<and> (\<forall>a. model_ACL st (m_Path m) = Some a \<longrightarrow>
         model_ACL (snd (RevokeModel_jem env st m user access)) (m_Path m)
           = Some (a\<lparr>acl_Read := removeAll user (acl_Read a)\<rparr>))"
proof -
  note acl = model_ACL_set_ACL
  show ?thesis
  proof (intro conjI impI allI)
    assume "api_GrantModel env (m_UUID m) user access = Some e"
    then show "GrantModel_jem env st m user access = (Some (Mask e no_pass), st)"
      by (simp add: GrantModel_jem_def)
  next
    show "Error_text (Mask e no_pass) = Error_text e" by (rule Mask_text)
  next
    assume "api_GrantModel env (m_UUID m) user access = None"
    then show "fst (GrantModel_jem env st m user access) = None"
      by (simp add: GrantModel_jem_def)
  next
    fix a
    assume g: "api_GrantModel env (m_UUID m) user access = None"
      and a: "model_ACL st (m_Path m) = Some a"
    from acl[OF a] g
    show "\<exists>a'. model_ACL (snd (GrantModel_jem env st m user access)) (m_Path m) = Some a'
                  \<and> user \<in> set (acl_Read a')"
      by (simp add: GrantModel_jem_def)
  next
    assume "api_RevokeModel env (m_UUID m) user access = Some e"
    then show "fst (RevokeModel_jem env st m user access) = Some (Mask e no_pass)"
      by (simp add: RevokeModel_jem_def Let_def)
  next
    show "Error_text (Mask e no_pass) = Error_text e" by (rule Mask_text)
  next
    fix a
    assume a: "model_ACL st (m_Path m) = Some a"
    from acl[OF a]
    show "model_ACL (snd (RevokeModel_jem env st m user access)) (m_Path m)
           = Some (a\<lparr>acl_Read := removeAll user (acl_Read a)\<rparr>)"
      by (simp add: RevokeModel_jem_def Let_def split: option.splits)
  qed
qed

lemma ev_granted:
  "model_ACL granted_store \<lparr>User = ''bob'', Name = ''model''\<rparr>
     = Some \<lparr>acl_Read = [''alice''], acl_Write = [], acl_Admin = []\<rparr>"
  by (simp add: granted_store_def GrantModel_jem_def test_env_def modify_access_def valid_access_def
      bootstrap_store_def test_model_def set_ACL_def model_ACL_def)

lemma ev_revoke_fails:
  "fst (RevokeModel_jem test_env granted_store (test_model ''bob'' ''model'' ''cred'') ''alice'' ''superpowers'')
     = Some (Errgo CauseSelf (quoted ''superpowers'' @ '' model access not valid''))"
  by (simp add: RevokeModel_jem_def test_env_def modify_access_def valid_access_def Let_def
      Mask_def no_pass_def)

lemma ev_revoke_acl:
  "model_ACL (snd (RevokeModel_jem test_env granted_store (test_model ''bob'' ''model'' ''cred'')
       ''alice'' ''superpowers'')) \<lparr>User = ''bob'', Name = ''model''\<rparr>
     = Some \<lparr>acl_Read = [], acl_Write = [], acl_Admin = []\<rparr>"
  by (simp add: granted_store_def GrantModel_jem_def RevokeModel_jem_def test_env_def modify_access_def
      valid_access_def bootstrap_store_def test_model_def set_ACL_def model_ACL_def Let_def)

text \<open>
  Claim C5, as stated for \<^verbatim>\<open>RevokeModel\<close>, fails in the scenario of
  \<^verbatim>\<open>TestRevokeModelControllerFailure\<close>: alice has been granted access, the controller rejects
  the access level "superpowers", the error is returned, and the local ACL has changed.
\<close>

theorem revoke_controller_failure_counterexample:
  "model_ACL granted_store \<lparr>User = ''bob'', Name = ''model''\<rparr>
     = Some \<lparr>acl_Read = [''alice''], acl_Write = [], acl_Admin = []\<rparr>
   \<and> fst (RevokeModel_jem test_env granted_store (test_model ''bob'' ''model'' ''cred'') ''alice'' ''superpowers'')
     = Some (Errgo CauseSelf (quoted ''superpowers'' @ '' model access not valid''))
   \<and> model_ACL (snd (RevokeModel_jem test_env granted_store (test_model ''bob'' ''model'' ''cred'')
       ''alice'' ''superpowers'')) \<lparr>User = ''bob'', Name = ''model''\<rparr>
     \<noteq> model_ACL granted_store \<lparr>User = ''bob'', Name = ''model''\<rparr>"
  by (simp add: ev_granted ev_revoke_fails ev_revoke_acl)


lemma ev_grant_fails:
  "api_GrantModel test_env (m_UUID (test_model ''bob'' ''model'' ''cred'')) ''alice'' ''superpowers''
     = Some (ParamsError (quoted ''superpowers'' @ '' model access not valid'') [])"
  "api_RevokeModel test_env (m_UUID (test_model ''bob'' ''model'' ''cred'')) ''alice'' ''superpowers''
     = Some (ParamsError (quoted ''superpowers'' @ '' model access not valid'') [])"
  "api_GrantModel test_env (m_UUID (test_model ''bob'' ''model'' ''cred'')) ''alice'' ''write'' = None"
  by (simp_all add: test_env_def modify_access_def valid_access_def)

lemma ev_bootstrap_acl:
  "model_ACL bootstrap_store (m_Path (test_model ''bob'' ''model'' ''cred''))
     = Some \<lparr>acl_Read = [], acl_Write = [], acl_Admin = []\<rparr>"
  by (simp add: bootstrap_store_def test_model_def model_ACL_def)

lemma ev_path: "m_Path (test_model ''bob'' ''model'' ''cred'') = \<lparr>User = ''bob'', Name = ''model''\<rparr>"
  by (simp add: test_model_def)

text \<open>The scenarios of \<^verbatim>\<open>TestGrantModelControllerFailure\<close>, \<^verbatim>\<open>TestGrantModel\<close> and
  \<^verbatim>\<open>TestRevokeModelControllerFailure\<close>.\<close>

theorem grant_revoke_controller_rejects_witness:
  "api_GrantModel test_env (m_UUID (test_model ''bob'' ''model'' ''cred'')) ''alice'' ''superpowers''
     = Some (ParamsError (quoted ''superpowers'' @ '' model access not valid'') [])
   \<and> GrantModel_jem test_env bootstrap_store (test_model ''bob'' ''model'' ''cred'') ''alice'' ''superpowers''
     = (Some (Mask (ParamsError (quoted ''superpowers'' @ '' model access not valid'') []) no_pass),
        bootstrap_store)
   \<and> api_GrantModel test_env (m_UUID (test_model ''bob'' ''model'' ''cred'')) ''alice'' ''write'' = None
   \<and> fst (GrantModel_jem test_env bootstrap_store (test_model ''bob'' ''model'' ''cred'') ''alice'' ''write'')
     = None
   \<and> model_ACL granted_store \<lparr>User = ''bob'', Name = ''model''\<rparr>
     = Some \<lparr>acl_Read = [''alice''], acl_Write = [], acl_Admin = []\<rparr>
   \<and> api_RevokeModel test_env (m_UUID (test_model ''bob'' ''model'' ''cred'')) ''alice'' ''superpowers''
     = Some (ParamsError (quoted ''superpowers'' @ '' model access not valid'') [])
   \<and> fst (RevokeModel_jem test_env granted_store (test_model ''bob'' ''model'' ''cred'') ''alice'' ''superpowers'')
     = Some (Mask (ParamsError (quoted ''superpowers'' @ '' model access not valid'') []) no_pass)
   \<and> model_ACL (snd (RevokeModel_jem test_env granted_store (test_model ''bob'' ''model'' ''cred'')
         ''alice'' ''superpowers'')) \<lparr>User = ''bob'', Name = ''model''\<rparr>
     = Some \<lparr>acl_Read = [], acl_Write = [], acl_Admin = []\<rparr>"
proof -
  note G = grant_revoke_controller_rejects[where env = test_env
      and m = "test_model ''bob'' ''model'' ''cred''" and user = "''alice''"
      and access = "''superpowers''" and st = bootstrap_store
      and e = "ParamsError (quoted ''superpowers'' @ '' model access not valid'') []"]
  note W = grant_revoke_controller_rejects[where env = test_env
      and m = "test_model ''bob'' ''model'' ''cred''" and user = "''alice''"
      and access = "''write''" and st = bootstrap_store]
  note R = grant_revoke_controller_rejects[where env = test_env
      and m = "test_model ''bob'' ''model'' ''cred''" and user = "''alice''"
      and access = "''superpowers''" and st = granted_store
      and e = "ParamsError (quoted ''superpowers'' @ '' model access not valid'') []"]
  have g1: "GrantModel_jem test_env bootstrap_store (test_model ''bob'' ''model'' ''cred'') ''alice'' ''superpowers''
     = (Some (Mask (ParamsError (quoted ''superpowers'' @ '' model access not valid'') []) no_pass),
        bootstrap_store)"
    using G ev_grant_fails(1) by blast
  have g2: "fst (GrantModel_jem test_env bootstrap_store (test_model ''bob'' ''model'' ''cred'') ''alice'' ''write'')
     = None"
    using W ev_grant_fails(3) by blast
  have r1: "fst (RevokeModel_jem test_env granted_store (test_model ''bob'' ''model'' ''cred'') ''alice'' ''superpowers'')
     = Some (Mask (ParamsError (quoted ''superpowers'' @ '' model access not valid'') []) no_pass)"
    using R ev_grant_fails(2) by blast
  have r2: "model_ACL (snd (RevokeModel_jem test_env granted_store (test_model ''bob'' ''model'' ''cred'')
         ''alice'' ''superpowers'')) \<lparr>User = ''bob'', Name = ''model''\<rparr>
     = Some \<lparr>acl_Read = [], acl_Write = [], acl_Admin = []\<rparr>"
    using R ev_granted by (simp add: ev_path)
  show ?thesis
    using ev_grant_fails g1 g2 ev_granted r1 r2 by blast
qed

subsection \<open>Destroying a model twice\<close>








lemma ev_destroy_api:
  "fst (DestroyModelsV4_entry example_parsers empty_jem example_root ()
          \<lparr>dm_ModelTag = example_model_tag, DestroyStorage = None, Force = None, MaxWait = None\<rparr>)
     = \<lparr>Error = None\<rparr>"
  by (simp add: DestroyModelsV4_entry_def example_parsers_def empty_jem_def example_model_tag_def
      model_not_found_def)








end
